theory Spec2Isabelle
  imports Main "HOL-Library.Word" "HOL-Library.Finite_Map"
begin

section \<open>Backend services: data model (pkg/backends/backends.go)\<close>

text \<open>
  \<open>meta.KeyType\<close> and \<open>meta.Version\<close> of the cloud provider library: the scope of
  a resource and the API version it is read or written at.
\<close>

datatype KeyType = Global | Regional | Zonal

datatype Version = VersionGA | VersionBeta | VersionAlpha

record Key =
  KeyName :: string
  KeyZone :: string
  KeyRegion :: string

text \<open>
  Go errors. \<open>ApiError code msg\<close> is an error handed back by the remote transport
  and \<open>Errorf msg\<close> one made by a function outside the source; the other constructors
  are the \<open>fmt.Errorf\<close> sites of the source, each with the arguments it formats
  (\<open>%w\<close> keeps the wrapped error).
\<close>

datatype error =
    ApiError nat string
  | Errorf string
  | ErrGettingBackendService string error
      \<comment> \<open>"error getting backend service %s: %w"\<close>
  | ErrNoBackendsFound string
      \<comment> \<open>"no backends found for backend service %q"\<close>
  | ErrInvalidScope KeyType
      \<comment> \<open>"invalid scope for Health(): %s"\<close>
  | ErrGettingHealth string error
      \<comment> \<open>"error getting health for backend %q: %w"\<close>
  | ErrCannotConvertToService
      \<comment> \<open>"cannot convert to Service (%T)"\<close>
  | ErrIPv6OnlyService
      \<comment> \<open>"NEG is not supported for ipv6 only service (%T)"\<close>
  | ErrMergeCSM error
      \<comment> \<open>"failed to merge CSM service PortInfoMap: %v, error: %w"\<close>
  | ErrMergeIngress error
      \<comment> \<open>"failed to merge service ports referenced by ingress (%v): %w"\<close>
  | ErrCustomNegNameWithIngress string
      \<comment> \<open>"configuration for negs in service (%s) is invalid, custom neg name cannot be
          used with ingress enabled"\<close>
  | ErrMergeStandalone error
      \<comment> \<open>"failed to merge service ports exposed as standalone NEGs (%v) into ingress
          referenced service ports (%v): %w"\<close>
  | ErrCannotConvertObj
      \<comment> \<open>"cannot convert obj to Service; obj=%T"\<close>

text \<open>
  The fields of \<open>composite.BackendService\<close> that \<open>Get\<close>, \<open>Delete\<close>, \<open>Health\<close>,
  \<open>EnsureL4BackendService\<close> and \<open>backendSvcEqual\<close> read or write. Pointer fields are
  options (\<open>None\<close> is nil); \<open>int64\<close> is a 64-bit word read as signed.
\<close>

record ConnectionDraining =
  DrainingTimeoutSec :: "64 word"

record BackendServiceConnectionTrackingPolicy =
  TrackingMode :: string
  EnableStrongAffinity :: bool
  IdleTimeoutSec :: "64 word"

record Backend =
  Group :: string

record BackendService =
  Name :: string
  Protocol :: string
  Description :: string
  HealthChecks :: "string list"
  SessionAffinity :: string
  LoadBalancingScheme :: string
  ConnectionTrackingPolicy :: "BackendServiceConnectionTrackingPolicy option"
  Network :: string
  ConnectionDraining :: "ConnectionDraining option"
  Fingerprint :: string
  Backends :: "Backend list"

text \<open>\<open>compute.HealthStatus\<close> and \<open>compute.BackendServiceGroupHealth\<close>; the latter
  holds a slice of pointers, so an entry may be nil.\<close>

record HealthStatus =
  HealthState :: string

record BackendServiceGroupHealth =
  HealthStatus :: "HealthStatus option list"

record NamespacedName =
  Namespace :: string
  NsName :: string

record NetworkInfo =
  IsDefault :: bool
  NetworkURL :: string
  SubnetworkURL :: string

datatype L4LBType = ILB | XLB

definition DefaultConnectionDrainingTimeoutSeconds :: "64 word" where
  "DefaultConnectionDrainingTimeoutSeconds = 30"

definition ProtocolTCP :: string where
  "ProtocolTCP = ''TCP''"

definition StatusNotFound :: nat where
  "StatusNotFound = 404"

definition NamespacedName_String :: "NamespacedName \<Rightarrow> string" where
  "NamespacedName_String n = Namespace n @ ''/'' @ NsName n"

subsection \<open>The remote control plane\<close>

text \<open>
  Every remote operation the source issues is recorded as a \<open>call\<close>. The control plane
  is an external collaborator whose answer may depend on everything that was asked of it
  before, so each operation of \<open>Cloud\<close> takes the history of calls; a function of the
  source takes the history and returns it extended by the calls it made. An operation
  that returns Go's pair of a pointer and an error returns one of the two: a sum.
\<close>

datatype call =
    GetBackendServiceCall Key Version
  | CreateBackendServiceCall Key BackendService
  | UpdateBackendServiceCall Key BackendService
  | DeleteBackendServiceCall Key Version
  | GetGlobalBackendServiceHealthCall string string
  | GetRegionalBackendServiceHealthCall string string string

record Cloud =
  Region :: string
  GetBackendService :: "call list \<Rightarrow> Key \<Rightarrow> Version \<Rightarrow> error + BackendService"
  CreateBackendService :: "call list \<Rightarrow> Key \<Rightarrow> BackendService \<Rightarrow> error option"
  UpdateBackendService :: "call list \<Rightarrow> Key \<Rightarrow> BackendService \<Rightarrow> error option"
  DeleteBackendService :: "call list \<Rightarrow> Key \<Rightarrow> Version \<Rightarrow> error option"
  GetGlobalBackendServiceHealth ::
    "call list \<Rightarrow> string \<Rightarrow> string \<Rightarrow> error + BackendServiceGroupHealth"
  GetRegionalBackendServiceHealth ::
    "call list \<Rightarrow> string \<Rightarrow> string \<Rightarrow> string \<Rightarrow> error + BackendServiceGroupHealth"

text \<open>
  Functions of the packages \<open>composite\<close>, \<open>features\<close> and \<open>utils\<close> that the source calls
  and whose bodies are not part of it. They are parameters of the model: every theorem
  below holds for whatever they compute.
\<close>

record Deps =
  CreateKey :: "Cloud \<Rightarrow> string \<Rightarrow> KeyType \<Rightarrow> error + Key"
  VersionFromDescription :: "string \<Rightarrow> Version"
  IsLowerVersion :: "Version \<Rightarrow> Version \<Rightarrow> bool"
  IsHTTPErrorCode :: "error \<Rightarrow> nat \<Rightarrow> bool"
  IsInUsedByError :: "error \<Rightarrow> bool"
  IsNotFoundError :: "error \<Rightarrow> bool"
  TranslateAffinityType :: "string \<Rightarrow> string"
  MakeL4LBServiceDescription ::
    "string \<Rightarrow> string \<Rightarrow> Version \<Rightarrow> bool \<Rightarrow> L4LBType \<Rightarrow> string \<times> error option"

text \<open>The \<open>Backends\<close> struct (its namer is not used by the functions modelled here).\<close>

record Backends =
  cloud :: Cloud
  useConnectionTrackingPolicy :: bool

text \<open>The \<open>composite\<close> and \<open>gce.Cloud\<close> calls: ask the control plane, record the call.\<close>

definition composite_GetBackendService ::
  "Cloud \<Rightarrow> Key \<Rightarrow> Version \<Rightarrow> call list \<Rightarrow> (error + BackendService) \<times> call list" where
  "composite_GetBackendService c key version tr =
     (GetBackendService c tr key version, tr @ [GetBackendServiceCall key version])"

definition composite_CreateBackendService ::
  "Cloud \<Rightarrow> Key \<Rightarrow> BackendService \<Rightarrow> call list \<Rightarrow> error option \<times> call list" where
  "composite_CreateBackendService c key be tr =
     (CreateBackendService c tr key be, tr @ [CreateBackendServiceCall key be])"

definition composite_UpdateBackendService ::
  "Cloud \<Rightarrow> Key \<Rightarrow> BackendService \<Rightarrow> call list \<Rightarrow> error option \<times> call list" where
  "composite_UpdateBackendService c key be tr =
     (UpdateBackendService c tr key be, tr @ [UpdateBackendServiceCall key be])"

definition composite_DeleteBackendService ::
  "Cloud \<Rightarrow> Key \<Rightarrow> Version \<Rightarrow> call list \<Rightarrow> error option \<times> call list" where
  "composite_DeleteBackendService c key version tr =
     (DeleteBackendService c tr key version, tr @ [DeleteBackendServiceCall key version])"

definition cloud_GetGlobalBackendServiceHealth ::
  "Cloud \<Rightarrow> string \<Rightarrow> string \<Rightarrow> call list
     \<Rightarrow> (error + BackendServiceGroupHealth) \<times> call list" where
  "cloud_GetGlobalBackendServiceHealth c name grp tr =
     (GetGlobalBackendServiceHealth c tr name grp,
      tr @ [GetGlobalBackendServiceHealthCall name grp])"

definition cloud_GetRegionalBackendServiceHealth ::
  "Cloud \<Rightarrow> string \<Rightarrow> string \<Rightarrow> string \<Rightarrow> call list
     \<Rightarrow> (error + BackendServiceGroupHealth) \<times> call list" where
  "cloud_GetRegionalBackendServiceHealth c name region grp tr =
     (GetRegionalBackendServiceHealth c tr name region grp,
      tr @ [GetRegionalBackendServiceHealthCall name region grp])"

subsection \<open>Get and Delete\<close>

text \<open>\<open>Backends.Get\<close>: fetch at the requested version, then again at the version the
  stored description requires when that one is lower.\<close>

definition Get ::
  "Deps \<Rightarrow> Backends \<Rightarrow> string \<Rightarrow> Version \<Rightarrow> KeyType \<Rightarrow> call list
     \<Rightarrow> (error + BackendService) \<times> call list" where
  "Get d b name version scope tr =
     (case CreateKey d (cloud b) name scope of
        Inl err \<Rightarrow> (Inl err, tr)
      | Inr key \<Rightarrow>
          (case composite_GetBackendService (cloud b) key version tr of
             (Inl err, tr1) \<Rightarrow> (Inl err, tr1)
           | (Inr be, tr1) \<Rightarrow>
               (let versionRequired = VersionFromDescription d (Description be) in
                if IsLowerVersion d versionRequired version
                then (case composite_GetBackendService (cloud b) key versionRequired tr1 of
                        (Inl err, tr2) \<Rightarrow> (Inl err, tr2)
                      | (Inr be2, tr2) \<Rightarrow> (Inr be2, tr2))
                else (Inr be, tr1))))"

text \<open>\<open>Backends.Delete\<close>: \<open>None\<close> is the nil error.\<close>

definition Delete ::
  "Deps \<Rightarrow> Backends \<Rightarrow> string \<Rightarrow> Version \<Rightarrow> KeyType \<Rightarrow> call list
     \<Rightarrow> error option \<times> call list" where
  "Delete d b name version scope tr =
     (case CreateKey d (cloud b) name scope of
        Inl err \<Rightarrow> (Some err, tr)
      | Inr key \<Rightarrow>
          (case composite_DeleteBackendService (cloud b) key version tr of
             (Some err, tr1) \<Rightarrow>
               (if IsHTTPErrorCode d err StatusNotFound \<or> IsInUsedByError d err
                then (None, tr1)
                else (Some err, tr1))
           | (None, tr1) \<Rightarrow> (None, tr1)))"

subsection \<open>Health\<close>

text \<open>
  What a call of \<open>Health\<close> ends in: the pair \<open>(string, error)\<close> it returns, or the
  panic of Go's runtime when the loop reads \<open>HealthState\<close> through a nil entry.
\<close>

datatype HealthResult = Returned string "error option" | Panic

datatype InstanceScan = FoundHealthy | Examined string | NilDereference

text \<open>The inner loop over \<open>hs.HealthStatus\<close>; \<open>ret\<close> is the variable it assigns.\<close>

fun Health_instances :: "HealthStatus option list \<Rightarrow> string \<Rightarrow> InstanceScan" where
  "Health_instances [] ret = Examined ret"
| "Health_instances (None # rest) ret = NilDereference"
| "Health_instances (Some instanceStatus # rest) ret =
     (if HealthState instanceStatus = ''HEALTHY'' then FoundHealthy
      else Health_instances rest (HealthState instanceStatus))"

text \<open>The \<open>switch scope\<close> of the outer loop; \<open>None\<close> is its default branch.\<close>

definition Health_lookup ::
  "Backends \<Rightarrow> string \<Rightarrow> KeyType \<Rightarrow> string \<Rightarrow> call list
     \<Rightarrow> ((error + BackendServiceGroupHealth) \<times> call list) option" where
  "Health_lookup b name scope grp tr =
     (case scope of
        Global \<Rightarrow> Some (cloud_GetGlobalBackendServiceHealth (cloud b) name grp tr)
      | Regional \<Rightarrow>
          Some (cloud_GetRegionalBackendServiceHealth (cloud b) name (Region (cloud b)) grp tr)
      | Zonal \<Rightarrow> None)"

text \<open>The outer loop over \<open>be.Backends\<close>.\<close>

fun Health_backends ::
  "Backends \<Rightarrow> string \<Rightarrow> KeyType \<Rightarrow> Backend list \<Rightarrow> string \<Rightarrow> call list
     \<Rightarrow> HealthResult \<times> call list" where
  "Health_backends b name scope [] ret tr = (Returned ret None, tr)"
| "Health_backends b name scope (backend # rest) ret tr =
     (case Health_lookup b name scope (Group backend) tr of
        None \<Rightarrow> (Returned ''Unknown'' (Some (ErrInvalidScope scope)), tr)
      | Some (Inl err, tr1) \<Rightarrow> (Returned ''Unknown'' (Some (ErrGettingHealth name err)), tr1)
      | Some (Inr hs, tr1) \<Rightarrow>
          (if length (HealthStatus hs) = 0 \<or> HealthStatus hs ! 0 = None
           then Health_backends b name scope rest ret tr1
           else (case Health_instances (HealthStatus hs) ret of
                   FoundHealthy \<Rightarrow> (Returned ''HEALTHY'' None, tr1)
                 | Examined ret' \<Rightarrow> Health_backends b name scope rest ret' tr1
                 | NilDereference \<Rightarrow> (Panic, tr1))))"

definition Health ::
  "Deps \<Rightarrow> Backends \<Rightarrow> string \<Rightarrow> Version \<Rightarrow> KeyType \<Rightarrow> call list
     \<Rightarrow> HealthResult \<times> call list" where
  "Health d b name version scope tr =
     (case Get d b name version scope tr of
        (Inl err, tr1) \<Rightarrow>
          (Returned ''Unknown'' (Some (ErrGettingBackendService name err)), tr1)
      | (Inr be, tr1) \<Rightarrow>
          (if length (Backends be) = 0
           then (Returned ''Unknown'' (Some (ErrNoBackendsFound name)), tr1)
           else Health_backends b name scope (Backends be) ''Unknown'' tr1))"

text \<open>
  For stating what \<open>Health\<close> returns: the answers the control plane gives when the
  groups are looked up one after the other (none for a scope that has no lookup), whether a
  group's answer carries a status (the test of the loop before it reads the entries), and
  the entries of the groups that do, in the order the loop reads them.
\<close>

fun Health_responses ::
  "Backends \<Rightarrow> string \<Rightarrow> KeyType \<Rightarrow> Backend list \<Rightarrow> call list
     \<Rightarrow> (error + BackendServiceGroupHealth) list" where
  "Health_responses b name scope [] tr = []"
| "Health_responses b name scope (backend # rest) tr =
     (case Health_lookup b name scope (Group backend) tr of
        None \<Rightarrow> []
      | Some (r, tr1) \<Rightarrow> r # Health_responses b name scope rest tr1)"

definition reportsStatus :: "BackendServiceGroupHealth \<Rightarrow> bool" where
  "reportsStatus hs = (case HealthStatus hs of [] \<Rightarrow> False | x # _ \<Rightarrow> x \<noteq> None)"

definition examinedStatuses :: "BackendServiceGroupHealth list \<Rightarrow> HealthStatus option list" where
  "examinedStatuses hss = concat (map HealthStatus (filter reportsStatus hss))"

subsection \<open>backendSvcEqual\<close>

text \<open>
  Modelled from the spec: \<open>utils.EqualStringSets\<close> (package \<open>utils\<close>, not part of the
  source at hand) compares two string slices as sets, whatever their order and
  repetitions.
\<close>

definition EqualStringSets :: "string list \<Rightarrow> string list \<Rightarrow> bool" where
  "EqualStringSets x y = (set x = set y)"

definition connectionTrackingPolicyEqual ::
  "BackendServiceConnectionTrackingPolicy option
     \<Rightarrow> BackendServiceConnectionTrackingPolicy option \<Rightarrow> bool" where
  "connectionTrackingPolicyEqual a b =
     (case (a, b) of
        (Some x, Some y) \<Rightarrow>
          TrackingMode x = TrackingMode y \<and>
          EnableStrongAffinity x = EnableStrongAffinity y \<and>
          IdleTimeoutSec x = IdleTimeoutSec y
      | _ \<Rightarrow> a = b)"

definition backendSvcEqual :: "BackendService \<Rightarrow> BackendService \<Rightarrow> bool \<Rightarrow> bool" where
  "backendSvcEqual a b compareConnectionTracking =
     (let svcsEqual =
        (Protocol a = Protocol b \<and>
         Description a = Description b \<and>
         SessionAffinity a = SessionAffinity b \<and>
         LoadBalancingScheme a = LoadBalancingScheme b \<and>
         EqualStringSets (HealthChecks a) (HealthChecks b) \<and>
         Network a = Network b)
      in if compareConnectionTracking
         then svcsEqual \<and>
              connectionTrackingPolicyEqual (ConnectionTrackingPolicy a)
                (ConnectionTrackingPolicy b)
         else svcsEqual)"

subsection \<open>EnsureL4BackendService\<close>

text \<open>The desired object the function builds before it looks at what it fetched
  (fields it does not set keep Go's zero value).\<close>

definition expectedBS ::
  "Deps \<Rightarrow> Backends \<Rightarrow> string \<Rightarrow> string \<Rightarrow> string \<Rightarrow> string \<Rightarrow> string \<Rightarrow> NamespacedName
     \<Rightarrow> NetworkInfo \<Rightarrow> BackendServiceConnectionTrackingPolicy option \<Rightarrow> BackendService" where
  "expectedBS d b name hcLink protocol sessionAffinity scheme namespacedName network
     connectionTrackingPolicy =
     \<lparr> Name = name,
       Protocol = protocol,
       Description =
         fst (MakeL4LBServiceDescription d (NamespacedName_String namespacedName) []
                VersionGA False ILB),
       HealthChecks = [hcLink],
       SessionAffinity = TranslateAffinityType d sessionAffinity,
       LoadBalancingScheme = scheme,
       ConnectionTrackingPolicy =
         (if useConnectionTrackingPolicy b then connectionTrackingPolicy else None),
       Network = (if \<not> IsDefault network then NetworkURL network else []),
       ConnectionDraining =
         (if protocol = ProtocolTCP
          then Some \<lparr>DrainingTimeoutSec = DefaultConnectionDrainingTimeoutSeconds\<rparr>
          else Some \<lparr>DrainingTimeoutSec = 0\<rparr>),
       Fingerprint = [],
       Backends = [] \<rparr>"

text \<open>The object submitted by the update: the desired one with the user's draining
  timeout (TCP only), the fingerprint and the attached backends of the fetched one.\<close>

definition updatedBS :: "BackendService \<Rightarrow> BackendService \<Rightarrow> string \<Rightarrow> BackendService" where
  "updatedBS expected bs protocol =
     (let expected1 =
        (case ConnectionDraining bs of
           Some cd \<Rightarrow>
             (if 0 <s DrainingTimeoutSec cd \<and> protocol = ProtocolTCP
              then expected\<lparr>ConnectionDraining :=
                     Some \<lparr>DrainingTimeoutSec = DrainingTimeoutSec cd\<rparr>\<rparr>
              else expected)
         | None \<Rightarrow> expected)
      in expected1\<lparr>Fingerprint := Fingerprint bs, Backends := Backends bs\<rparr>)"

definition EnsureL4BackendService ::
  "Deps \<Rightarrow> Backends \<Rightarrow> string \<Rightarrow> string \<Rightarrow> string \<Rightarrow> string \<Rightarrow> string \<Rightarrow> NamespacedName
     \<Rightarrow> NetworkInfo \<Rightarrow> BackendServiceConnectionTrackingPolicy option \<Rightarrow> call list
     \<Rightarrow> (error + BackendService) \<times> call list" where
  "EnsureL4BackendService d b name hcLink protocol sessionAffinity scheme namespacedName
     network connectionTrackingPolicy tr =
     (case CreateKey d (cloud b) name Regional of
        Inl err \<Rightarrow> (Inl err, tr)
      | Inr key \<Rightarrow>
          (let expected = expectedBS d b name hcLink protocol sessionAffinity scheme
                            namespacedName network connectionTrackingPolicy;
               create = (\<lambda>tr1.
                 (case composite_CreateBackendService (cloud b) key expected tr1 of
                    (Some err, tr2) \<Rightarrow> (Inl err, tr2)
                  | (None, tr2) \<Rightarrow> composite_GetBackendService (cloud b) key VersionGA tr2))
           in case composite_GetBackendService (cloud b) key VersionGA tr of
                (Inl err, tr1) \<Rightarrow>
                  (if \<not> IsNotFoundError d err then (Inl err, tr1) else create tr1)
              | (Inr bs, tr1) \<Rightarrow>
                  (if backendSvcEqual expected bs (useConnectionTrackingPolicy b)
                   then (Inr bs, tr1)
                   else (case composite_UpdateBackendService (cloud b) key
                                (updatedBS expected bs protocol) tr1 of
                           (Some err, tr2) \<Rightarrow> (Inl err, tr2)
                         | (None, tr2) \<Rightarrow>
                             composite_GetBackendService (cloud b) key VersionGA tr2))))"

section \<open>The NEG controller (package neg, second part of the source)\<close>

subsection \<open>Data model\<close>

text \<open>
  The parts of the Kubernetes objects the controller reads. A Go map is a partial
  function (a nil map and an empty map read alike); a pointer is an option.
\<close>

record ObjectMeta =
  MetaNamespace :: string
  MetaName :: string
  Annotations :: "string \<rightharpoonup> string"

datatype IntOrString = IntVal "32 word" | StrVal string

record ServicePort =
  PortName :: string
  Port :: "32 word"
  TargetPort :: IntOrString

record ServiceSpec =
  Type :: string
  Ports :: "ServicePort list"
  Selector :: "string \<rightharpoonup> string"
  IPFamilyPolicy :: "string option"
  IPFamilies :: "string list"
  LoadBalancerClass :: "string option"

record Service =
  ObjectMeta :: ObjectMeta
  Spec :: ServiceSpec

record ServiceBackendPort =
  BackendPortName :: string
  BackendPortNumber :: "32 word"

record ServicePortID =
  IDService :: NamespacedName
  IDPort :: ServiceBackendPort

record IngressBackend =
  BackendServiceName :: string
  BackendServicePort :: ServiceBackendPort

record Ingress =
  IngressNamespace :: string
  IngressName :: string
  IngressClass :: string
  IngressDefaultBackend :: "IngressBackend option"
  IngressRules :: "IngressBackend list"

text \<open>\<open>utils.ServicePort\<close>, as far as the default backend service is read.\<close>

record DefaultBackendServicePort =
  ID :: ServicePortID
  DefaultPort :: "32 word"
  DefaultTargetPort :: IntOrString

definition ServiceTypeLoadBalancer :: string where
  "ServiceTypeLoadBalancer = ''LoadBalancer''"

definition IPFamilyPolicySingleStack :: string where
  "IPFamilyPolicySingleStack = ''SingleStack''"

definition IPv6Protocol :: string where
  "IPv6Protocol = ''IPv6''"

text \<open>
  Modelled from the spec: the types of package \<open>negtypes\<close>, \<open>annotations\<close> and of the
  usage metrics, which the source at hand uses but does not declare. \<open>SvcPortTuple\<close> is
  the triple (port, name, target port); a \<open>PortInfoMap\<close> maps (namespace, name, port
  tuple) to a \<open>PortInfo\<close> holding the assigned name, the endpoint type, the readiness-gate
  flag, the network and the optional custom name; the exposure annotation has the options
  \<open>ingress\<close> and \<open>exposed-ports\<close> (port to optional name); the usage snapshot holds
  the counters.
\<close>

record SvcPortTuple =
  TuplePort :: "32 word"
  TupleName :: string
  TupleTargetPort :: string

record PortInfoMapKey =
  InfoNamespace :: string
  InfoName :: string
  InfoTuple :: SvcPortTuple

record PortInfo =
  NegName :: string
  EndpointType :: string
  ReadinessGate :: bool
  InfoNetwork :: NetworkInfo
  CustomName :: "string option"

type_synonym PortInfoMap = "(PortInfoMapKey, PortInfo) fmap"

type_synonym CustomNames = "(SvcPortTuple, string) fmap"

record NegAnnotation =
  Ingress :: bool
  ExposedPorts :: "(32 word \<times> string) list"

record NegServiceState =
  IngressNeg :: int
  StandaloneNeg :: int
  AsmNeg :: int
  VmIpNeg :: "bool option"
  CustomNamedNeg :: int
  SuccessfulNeg :: int
  ErrorNeg :: int

definition emptyNegServiceState :: NegServiceState where
  "emptyNegServiceState =
     \<lparr> IngressNeg = 0, StandaloneNeg = 0, AsmNeg = 0, VmIpNeg = None, CustomNamedNeg = 0,
       SuccessfulNeg = 0, ErrorNeg = 0 \<rparr>"

text \<open>Go's \<open>len\<close> on the two maps.\<close>

definition len :: "('k, 'v) fmap \<Rightarrow> int" where
  "len m = int (fcard (fmdom m))"

text \<open>
  What the informer store hands back for a key is an \<open>interface{}\<close>: nil, a pointer to
  a Service (itself possibly nil), or an object of another type.
\<close>

datatype obj = NilObj | ServicePtr "Service option" | OtherObj

text \<open>What a function ends in: a return, or a panic of Go's runtime (a failed type
  assertion, a read through a nil pointer).\<close>

datatype 'a outcome = Return 'a | GoPanic

subsection \<open>The controller's collaborators\<close>

text \<open>
  Every call the controller makes on a collaborator is recorded as an \<open>event\<close>; as for
  the control plane above, an answer may depend on the events so far. Log lines, the
  Prometheus gauges and the deferred sync-time tracker are left out.
\<close>

datatype event =
    GetByKeyCall string
  | ListIngressesCall
  | ListZonesCall string
  | ServiceNetworkCall Service
  | DeleteNegServiceCall string
  | SetNegServiceCall string NegServiceState
  | StopSyncerCall string string
  | EnsureSyncersCall string string PortInfoMap
  | PatchServiceObjectMetadataCall Service ObjectMeta
  | EventfCall Service string string

record Controller =
  serviceLister_GetByKey :: "event list \<Rightarrow> string \<Rightarrow> obj \<times> bool \<times> error option"
  ingressLister_List :: "event list \<Rightarrow> Ingress list"
  zoneGetter_ListZones :: "event list \<Rightarrow> string \<Rightarrow> string list \<times> error option"
  networkResolver_ServiceNetwork :: "event list \<Rightarrow> Service \<Rightarrow> error + NetworkInfo"
  manager_EnsureSyncers ::
    "event list \<Rightarrow> string \<Rightarrow> string \<Rightarrow> PortInfoMap \<Rightarrow> int \<times> int \<times> error option"
  patch_PatchServiceObjectMetadata :: "event list \<Rightarrow> Service \<Rightarrow> ObjectMeta \<Rightarrow> error option"
  defaultBackendService :: DefaultBackendServicePort
  enableASM :: bool
  asmServiceNEGSkipNamespaces :: "string list"
  runL4 :: bool
  enableIngressRegionalExternal :: bool

text \<open>
  Functions and constants of other packages (and \<open>negServicePorts\<close> of another file of
  this package) that the source calls and does not contain; parameters of the model. The
  namers passed to \<open>NewPortInfoMap\<close> and \<open>NewPortInfoMapForVMIPNEG\<close> are the
  controller's own and are part of these two parameters; \<open>ListZonesMode\<close> is the mode
  \<open>EndpointsCalculatorMode\<close> gives, from which the node predicate for \<open>ListZones\<close> is
  made; \<open>NegStatusAnnotation\<close> is \<open>NewNegStatus(zones, portMap.ToPortNegMap()).Marshal()\<close>;
  \<open>IngressBackends\<close> lists the backends in the order \<open>TraverseIngressBackends\<close> visits
  them (the traversal stops when the callback returns true).
\<close>

record NegDeps =
  SplitMetaNamespaceKey :: "string \<Rightarrow> string \<times> string \<times> error option"
  getServiceKey :: "string \<Rightarrow> string \<Rightarrow> string"
  NEGStatusKey :: string
  NEGAnnotation :: "Service \<Rightarrow> NegAnnotation option \<times> bool \<times> error option"
  NEGEnabledForIngress :: "NegAnnotation \<Rightarrow> bool"
  NEGExposed :: "NegAnnotation \<Rightarrow> bool"
  negServicePorts ::
    "NegAnnotation \<Rightarrow> SvcPortTuple set \<Rightarrow> SvcPortTuple set \<times> CustomNames \<times> error option"
  NewPortInfoMap ::
    "string \<Rightarrow> string \<Rightarrow> SvcPortTuple set \<Rightarrow> bool \<Rightarrow> CustomNames option \<Rightarrow> NetworkInfo
       \<Rightarrow> PortInfoMap"
  NewPortInfoMapForVMIPNEG :: "string \<Rightarrow> string \<Rightarrow> bool \<Rightarrow> NetworkInfo \<Rightarrow> PortInfoMap"
  Merge :: "PortInfoMap \<Rightarrow> PortInfoMap \<Rightarrow> error + PortInfoMap"
  ListZonesMode :: "PortInfoMap \<Rightarrow> string"
  NegStatusAnnotation :: "string list \<Rightarrow> PortInfoMap \<Rightarrow> string \<times> error option"
  IsGCEL7ILBIngress :: "Ingress \<Rightarrow> bool"
  IsGCEL7XLBRegionalIngress :: "Ingress \<Rightarrow> bool"
  IsGCEIngress :: "Ingress \<Rightarrow> bool"
  IsGLBCIngress :: "Ingress \<Rightarrow> bool"
  IngressBackends :: "Ingress \<Rightarrow> ServicePortID list"
  translator_ServicePort :: "Service \<Rightarrow> ServiceBackendPort \<Rightarrow> ServicePort option"
  WantsL4ILB :: "Service \<Rightarrow> bool"
  WantsL4NetLB :: "Service \<Rightarrow> bool"
  HasRBSAnnotation :: "Service \<Rightarrow> bool"
  IsSubsettingL4ILBService :: "Service \<Rightarrow> bool"
  RequestsOnlyLocalTraffic :: "Service \<Rightarrow> bool"
  IntOrString_String :: "IntOrString \<Rightarrow> string"

definition serviceLister_GetByKeyCall ::
  "Controller \<Rightarrow> string \<Rightarrow> event list \<Rightarrow> (obj \<times> bool \<times> error option) \<times> event list" where
  "serviceLister_GetByKeyCall c key tr =
     (serviceLister_GetByKey c tr key, tr @ [GetByKeyCall key])"

definition ingressLister_ListCall ::
  "Controller \<Rightarrow> event list \<Rightarrow> Ingress list \<times> event list" where
  "ingressLister_ListCall c tr = (ingressLister_List c tr, tr @ [ListIngressesCall])"

definition zoneGetter_ListZonesCall ::
  "Controller \<Rightarrow> string \<Rightarrow> event list \<Rightarrow> (string list \<times> error option) \<times> event list" where
  "zoneGetter_ListZonesCall c mode tr =
     (zoneGetter_ListZones c tr mode, tr @ [ListZonesCall mode])"

definition networkResolver_ServiceNetworkCall ::
  "Controller \<Rightarrow> Service \<Rightarrow> event list \<Rightarrow> (error + NetworkInfo) \<times> event list" where
  "networkResolver_ServiceNetworkCall c service tr =
     (networkResolver_ServiceNetwork c tr service, tr @ [ServiceNetworkCall service])"

definition manager_EnsureSyncersCall ::
  "Controller \<Rightarrow> string \<Rightarrow> string \<Rightarrow> PortInfoMap \<Rightarrow> event list
     \<Rightarrow> (int \<times> int \<times> error option) \<times> event list" where
  "manager_EnsureSyncersCall c namespace name portMap tr =
     (manager_EnsureSyncers c tr namespace name portMap,
      tr @ [EnsureSyncersCall namespace name portMap])"

definition patch_PatchServiceObjectMetadataCall ::
  "Controller \<Rightarrow> Service \<Rightarrow> ObjectMeta \<Rightarrow> event list \<Rightarrow> error option \<times> event list" where
  "patch_PatchServiceObjectMetadataCall c service newMeta tr =
     (patch_PatchServiceObjectMetadata c tr service newMeta,
      tr @ [PatchServiceObjectMetadataCall service newMeta])"

subsection \<open>Gathering ports\<close>

definition svcPortTuple :: "NegDeps \<Rightarrow> ServicePort \<Rightarrow> SvcPortTuple" where
  "svcPortTuple d sp =
     \<lparr> TuplePort = Port sp, TupleName = PortName sp,
       TupleTargetPort = IntOrString_String d (TargetPort sp) \<rparr>"

definition gatherPortMappingFromService :: "NegDeps \<Rightarrow> Service \<Rightarrow> SvcPortTuple set" where
  "gatherPortMappingFromService d svc =
     foldl (\<lambda>svcPortTupleSet svcPort. insert (svcPortTuple d svcPort) svcPortTupleSet) {}
       (Ports (Spec svc))"

definition gatherPortMappingUsedByIngress ::
  "NegDeps \<Rightarrow> Ingress list \<Rightarrow> Service \<Rightarrow> SvcPortTuple set" where
  "gatherPortMappingUsedByIngress d ings svc =
     foldl (\<lambda>tuples ing.
        if IsGLBCIngress d ing
        then foldl (\<lambda>acc ident.
               if NsName (IDService ident) = MetaName (ObjectMeta svc) \<and>
                  Namespace (IDService ident) = MetaNamespace (ObjectMeta svc)
               then (case translator_ServicePort d svc (IDPort ident) of
                       None \<Rightarrow> acc
                     | Some servicePort \<Rightarrow> insert (svcPortTuple d servicePort) acc)
               else acc) tuples (IngressBackends d ing)
        else tuples) {} ings"

definition getIngressServicesFromStore ::
  "NegDeps \<Rightarrow> Ingress list \<Rightarrow> Service \<Rightarrow> Ingress list" where
  "getIngressServicesFromStore d store svc =
     foldl (\<lambda>ings ing.
        if IngressNamespace ing \<noteq> MetaNamespace (ObjectMeta svc) then ings
        else if IsGLBCIngress d ing \<and>
                (\<exists>ident \<in> set (IngressBackends d ing).
                   NsName (IDService ident) = MetaName (ObjectMeta svc))
        then ings @ [ing]
        else ings) [] store"

definition isSingleStackIPv6Service :: "Service \<Rightarrow> bool" where
  "isSingleStackIPv6Service service =
     (if IPFamilyPolicy (Spec service) \<noteq> None \<and>
         IPFamilyPolicy (Spec service) \<noteq> Some IPFamilyPolicySingleStack
      then False
      else if length (IPFamilies (Spec service)) = 1 \<and>
              IPFamilies (Spec service) ! 0 = IPv6Protocol
      then True
      else False)"

subsection \<open>The merges of the desired-state resolution\<close>

text \<open>
  A merge function of the source changes \<open>portInfoMap\<close> (and \<open>negUsage\<close>) in place and
  returns an error; the model returns the error, or the changed values.
\<close>

definition mergeIngressPortInfo ::
  "Controller \<Rightarrow> NegDeps \<Rightarrow> Service \<Rightarrow> NamespacedName \<Rightarrow> PortInfoMap \<Rightarrow> NetworkInfo
     \<Rightarrow> event list \<Rightarrow> (error + PortInfoMap) \<times> event list" where
  "mergeIngressPortInfo c d service name portInfoMap networkInfo tr =
     (case NEGAnnotation d service of
        (negAnnotation, foundNEGAnnotation, Some err) \<Rightarrow> (Inl err, tr)
      | (negAnnotation, foundNEGAnnotation, None) \<Rightarrow>
          (if \<not> foundNEGAnnotation then (Inr portInfoMap, tr)
           else (case negAnnotation of
                   None \<Rightarrow> (Inr portInfoMap, tr)
                 | Some ann \<Rightarrow>
                     (if NEGEnabledForIngress d ann
                      then (case ingressLister_ListCall c tr of
                              (store, tr1) \<Rightarrow>
                                (let ings = getIngressServicesFromStore d store service;
                                     ingressSvcPortTuples =
                                       gatherPortMappingUsedByIngress d ings service;
                                     ingressPortInfoMap =
                                       NewPortInfoMap d (Namespace name) (NsName name)
                                         ingressSvcPortTuples True None networkInfo
                                 in case Merge d portInfoMap ingressPortInfoMap of
                                      Inl err \<Rightarrow> (Inl (ErrMergeIngress err), tr1)
                                    | Inr merged \<Rightarrow> (Inr merged, tr1)))
                      else (Inr portInfoMap, tr)))))"

definition mergeStandaloneNEGsPortInfo ::
  "Controller \<Rightarrow> NegDeps \<Rightarrow> Service \<Rightarrow> NamespacedName \<Rightarrow> PortInfoMap \<Rightarrow> NegServiceState
     \<Rightarrow> NetworkInfo \<Rightarrow> error + PortInfoMap \<times> NegServiceState" where
  "mergeStandaloneNEGsPortInfo c d service name portInfoMap negUsage networkInfo =
     (case NEGAnnotation d service of
        (negAnnotation, foundNEGAnnotation, Some err) \<Rightarrow> Inl err
      | (negAnnotation, foundNEGAnnotation, None) \<Rightarrow>
          (if \<not> foundNEGAnnotation then Inr (portInfoMap, negUsage)
           else (case negAnnotation of
                   None \<Rightarrow> Inr (portInfoMap, negUsage)
                 | Some ann \<Rightarrow>
                     (if NEGExposed d ann
                      then (let knowSvcPortSet =
                                  foldl (\<lambda>known sp. insert (svcPortTuple d sp) known) {}
                                    (Ports (Spec service))
                            in case negServicePorts d ann knowSvcPortSet of
                                 (exposedNegSvcPort, customNames, Some err) \<Rightarrow> Inl err
                               | (exposedNegSvcPort, customNames, None) \<Rightarrow>
                                   (if NEGEnabledForIngress d ann \<and> len customNames \<noteq> 0
                                    then Inl (ErrCustomNegNameWithIngress
                                                (NamespacedName_String name))
                                    else (case Merge d portInfoMap
                                                 (NewPortInfoMap d (Namespace name) (NsName name)
                                                    exposedNegSvcPort True (Some customNames)
                                                    networkInfo) of
                                            Inl err \<Rightarrow> Inl (ErrMergeStandalone err)
                                          | Inr merged \<Rightarrow>
                                              Inr (merged,
                                                   negUsage\<lparr>CustomNamedNeg :=
                                                              len customNames\<rparr>))))
                      else Inr (portInfoMap, negUsage)))))"

definition mergeVmIpNEGsPortInfo ::
  "Controller \<Rightarrow> NegDeps \<Rightarrow> Service \<Rightarrow> NamespacedName \<Rightarrow> PortInfoMap \<Rightarrow> NegServiceState
     \<Rightarrow> NetworkInfo \<Rightarrow> event list \<Rightarrow> (error + PortInfoMap \<times> NegServiceState) \<times> event list" where
  "mergeVmIpNEGsPortInfo c d service name portInfoMap negUsage networkInfo tr =
     (let wantsILB = WantsL4ILB d service;
          wantsNetLB = WantsL4NetLB d service;
          needsNEGForNetLB =
            (wantsNetLB \<and> \<not> IsDefault networkInfo \<and> HasRBSAnnotation d service)
      in if \<not> wantsILB \<and> \<not> needsNEGForNetLB then (Inr (portInfoMap, negUsage), tr)
         else if wantsILB \<and> \<not> IsSubsettingL4ILBService d service
         then (Inr (portInfoMap, negUsage),
               tr @ [EventfCall service ''Warning'' ''ProcessServiceSkipped''])
         else if LoadBalancerClass (Spec service) \<noteq> None then (Inr (portInfoMap, negUsage), tr)
         else (let onlyLocal = RequestsOnlyLocalTraffic d service
               in case Merge d portInfoMap
                         (NewPortInfoMapForVMIPNEG d (Namespace name) (NsName name) onlyLocal
                            networkInfo) of
                    Inl err \<Rightarrow> (Inl err, tr)
                  | Inr merged \<Rightarrow> (Inr (merged, negUsage\<lparr>VmIpNeg := Some onlyLocal\<rparr>), tr)))"

text \<open>The closure \<open>scanIngress\<close> of \<open>mergeDefaultBackendServicePortInfoMap\<close>: the first
  listed ingress that qualifies and has no default backend of its own decides. (The ingress
  store holds ingresses only, so the type assertion on its entries does not fail.)\<close>

definition scanIngress ::
  "Controller \<Rightarrow> NegDeps \<Rightarrow> (Ingress \<Rightarrow> bool) \<Rightarrow> PortInfoMap \<Rightarrow> NetworkInfo \<Rightarrow> event list
     \<Rightarrow> (error + PortInfoMap) \<times> event list" where
  "scanIngress c d qualify portInfoMap networkInfo tr =
     (case ingressLister_ListCall c tr of
        (store, tr1) \<Rightarrow>
          (case List.find (\<lambda>ing. qualify ing \<and> IngressDefaultBackend ing = None) store of
             None \<Rightarrow> (Inr portInfoMap, tr1)
           | Some ing \<Rightarrow>
               (let svcPortTupleSet =
                      insert \<lparr> TuplePort = DefaultPort (defaultBackendService c),
                               TupleName =
                                 BackendPortName (IDPort (ID (defaultBackendService c))),
                               TupleTargetPort =
                                 IntOrString_String d
                                   (DefaultTargetPort (defaultBackendService c)) \<rparr> {};
                    defaultServicePortInfoMap =
                      NewPortInfoMap d
                        (Namespace (IDService (ID (defaultBackendService c))))
                        (NsName (IDService (ID (defaultBackendService c))))
                        svcPortTupleSet False None networkInfo
                in (Merge d portInfoMap defaultServicePortInfoMap, tr1))))"

definition mergeDefaultBackendServicePortInfoMap ::
  "Controller \<Rightarrow> NegDeps \<Rightarrow> string \<Rightarrow> Service \<Rightarrow> PortInfoMap \<Rightarrow> NetworkInfo \<Rightarrow> event list
     \<Rightarrow> (error + PortInfoMap) outcome \<times> event list" where
  "mergeDefaultBackendServicePortInfoMap c d key service portInfoMap networkInfo tr =
     (if NamespacedName_String (IDService (ID (defaultBackendService c))) \<noteq> key
      then (Return (Inr portInfoMap), tr)
      else (case scanIngress c d (IsGCEL7ILBIngress d) portInfoMap networkInfo tr of
              (Inl err, tr1) \<Rightarrow> (Return (Inl err), tr1)
            | (Inr m1, tr1) \<Rightarrow>
                (case (if enableIngressRegionalExternal c
                       then scanIngress c d (IsGCEL7XLBRegionalIngress d) m1 networkInfo tr1
                       else (Inr m1, tr1)) of
                   (Inl err, tr2) \<Rightarrow> (Return (Inl err), tr2)
                 | (Inr m2, tr2) \<Rightarrow>
                     (case NEGAnnotation d service of
                        (negAnnotation, foundNEGAnnotation, Some err) \<Rightarrow>
                          (Return (Inl err), tr2)
                      | (negAnnotation, foundNEGAnnotation, None) \<Rightarrow>
                          (if \<not> foundNEGAnnotation then (Return (Inr m2), tr2)
                           else (case negAnnotation of
                                   None \<Rightarrow> (GoPanic, tr2)
                                 | Some ann \<Rightarrow>
                                     (if Ingress ann = False then (Return (Inr m2), tr2)
                                      else (case scanIngress c d (IsGCEIngress d) m2
                                                   networkInfo tr2 of
                                              (r, tr3) \<Rightarrow> (Return r, tr3)))))))))"

definition getCSMPortInfoMap ::
  "Controller \<Rightarrow> NegDeps \<Rightarrow> string \<Rightarrow> string \<Rightarrow> Service \<Rightarrow> NetworkInfo
     \<Rightarrow> PortInfoMap \<times> error option" where
  "getCSMPortInfoMap c d namespace name service networkInfo =
     (let servicePorts = gatherPortMappingFromService d service
      in if Selector (Spec service) = Map.empty then (fmempty, None)
         else if namespace \<in> set (asmServiceNEGSkipNamespaces c) then (fmempty, None)
         else (NewPortInfoMap d namespace name servicePorts False None networkInfo, None))"

subsection \<open>syncNegStatusAnnotation and processService\<close>

definition syncNegStatusAnnotation ::
  "Controller \<Rightarrow> NegDeps \<Rightarrow> string \<Rightarrow> string \<Rightarrow> PortInfoMap \<Rightarrow> event list
     \<Rightarrow> error option outcome \<times> event list" where
  "syncNegStatusAnnotation c d namespace name portMap tr =
     (case zoneGetter_ListZonesCall c (ListZonesMode d portMap) tr of
        ((zones, Some err), tr1) \<Rightarrow> (Return (Some err), tr1)
      | ((zones, None), tr1) \<Rightarrow>
          (case serviceLister_GetByKeyCall c (getServiceKey d namespace name) tr1 of
             ((ob, exists, Some err), tr2) \<Rightarrow> (Return (Some err), tr2)
           | ((ob, exists, None), tr2) \<Rightarrow>
               (if \<not> exists then (Return None, tr2)
                else (case ob of
                        NilObj \<Rightarrow> (Return (Some ErrCannotConvertObj), tr2)
                      | OtherObj \<Rightarrow> (Return (Some ErrCannotConvertObj), tr2)
                      | ServicePtr ptr \<Rightarrow>
                          (if len portMap = 0
                           then (case ptr of
                                   None \<Rightarrow> (GoPanic, tr2)
                                 | Some service \<Rightarrow>
                                     (if Annotations (ObjectMeta service) (NEGStatusKey d)
                                           \<noteq> None
                                      then (case patch_PatchServiceObjectMetadataCall c service
                                                   ((ObjectMeta service)
                                                      \<lparr>Annotations :=
                                                         (Annotations (ObjectMeta service))
                                                           (NEGStatusKey d := None)\<rparr>) tr2 of
                                              (r, tr3) \<Rightarrow> (Return r, tr3))
                                      else (Return None, tr2)))
                           else (case NegStatusAnnotation d zones portMap of
                                   (annotation, Some err) \<Rightarrow> (Return (Some err), tr2)
                                 | (annotation, None) \<Rightarrow>
                                     (case ptr of
                                        None \<Rightarrow> (GoPanic, tr2)
                                      | Some service \<Rightarrow>
                                          (if Annotations (ObjectMeta service) (NEGStatusKey d)
                                                = Some annotation
                                           then (Return None, tr2)
                                           else (case patch_PatchServiceObjectMetadataCall c
                                                        service
                                                        ((ObjectMeta service)
                                                           \<lparr>Annotations :=
                                                              (Annotations (ObjectMeta service))
                                                                (NEGStatusKey d \<mapsto>
                                                                   annotation)\<rparr>) tr2 of
                                                   (r, tr3) \<Rightarrow> (Return r, tr3))))))))))"

text \<open>
  The desired-state resolution inside \<open>processService\<close>: from the empty
  \<open>svcPortInfoMap\<close> through the five merges, to the map and the usage counters.
\<close>

definition resolvePortInfoMap ::
  "Controller \<Rightarrow> NegDeps \<Rightarrow> string \<Rightarrow> string \<Rightarrow> string \<Rightarrow> Service \<Rightarrow> event list
     \<Rightarrow> (error + PortInfoMap \<times> NegServiceState) outcome \<times> event list" where
  "resolvePortInfoMap c d key namespace name service tr =
     (let nn = \<lparr>Namespace = namespace, NsName = name\<rparr> in
      case networkResolver_ServiceNetworkCall c service tr of
        (Inl err, tr1) \<Rightarrow> (Return (Inl err), tr1)
      | (Inr networkInfo, tr1) \<Rightarrow>
      (case mergeDefaultBackendServicePortInfoMap c d key service fmempty networkInfo tr1 of
         (GoPanic, tr2) \<Rightarrow> (GoPanic, tr2)
       | (Return (Inl err), tr2) \<Rightarrow> (Return (Inl err), tr2)
       | (Return (Inr m1), tr2) \<Rightarrow>
       (case mergeIngressPortInfo c d service nn m1 networkInfo tr2 of
          (Inl err, tr3) \<Rightarrow> (Return (Inl err), tr3)
        | (Inr m2, tr3) \<Rightarrow>
        (let negUsage1 = emptyNegServiceState\<lparr>IngressNeg := len m2\<rparr> in
         case mergeStandaloneNEGsPortInfo c d service nn m2 negUsage1 networkInfo of
           Inl err \<Rightarrow> (Return (Inl err), tr3)
         | Inr (m3, negUsage2) \<Rightarrow>
         (let negUsage3 = negUsage2\<lparr>StandaloneNeg := len m3 - IngressNeg negUsage2\<rparr> in
          case (if enableASM c
                then (case getCSMPortInfoMap c d namespace name service networkInfo of
                        (csmSVCPortInfoMap, Some err) \<Rightarrow> Inl err
                      | (csmSVCPortInfoMap, None) \<Rightarrow>
                          (case Merge d m3 csmSVCPortInfoMap of
                             Inl err \<Rightarrow> Inl (ErrMergeCSM err)
                           | Inr merged \<Rightarrow>
                               Inr (merged, negUsage3\<lparr>AsmNeg := len csmSVCPortInfoMap\<rparr>)))
                else Inr (m3, negUsage3)) of
            Inl err \<Rightarrow> (Return (Inl err), tr3)
          | Inr (m4, negUsage4) \<Rightarrow>
              (if runL4 c
               then (case mergeVmIpNEGsPortInfo c d service nn m4 negUsage4 networkInfo tr3 of
                       (r, tr4) \<Rightarrow> (Return r, tr4))
               else (Return (Inr (m4, negUsage4)), tr3)))))))"

definition processService ::
  "Controller \<Rightarrow> NegDeps \<Rightarrow> string \<Rightarrow> event list \<Rightarrow> error option outcome \<times> event list" where
  "processService c d key tr =
     (case SplitMetaNamespaceKey d key of
        (namespace, name, Some err) \<Rightarrow> (Return (Some err), tr)
      | (namespace, name, None) \<Rightarrow>
      (case serviceLister_GetByKeyCall c key tr of
         ((ob, exists, Some err), tr1) \<Rightarrow> (Return (Some err), tr1)
       | ((ob, exists, None), tr1) \<Rightarrow>
       (if \<not> exists
        then (Return None, tr1 @ [DeleteNegServiceCall key, StopSyncerCall namespace name])
        else (case ob of
                NilObj \<Rightarrow> (GoPanic, tr1)
              | OtherObj \<Rightarrow> (GoPanic, tr1)
              | ServicePtr None \<Rightarrow> (Return (Some ErrCannotConvertToService), tr1)
              | ServicePtr (Some service) \<Rightarrow>
              (if Type (Spec service) \<noteq> ServiceTypeLoadBalancer \<and>
                  isSingleStackIPv6Service service
               then (Return (Some ErrIPv6OnlyService), tr1)
               else (case resolvePortInfoMap c d key namespace name service tr1 of
                       (GoPanic, tr2) \<Rightarrow> (GoPanic, tr2)
                     | (Return (Inl err), tr2) \<Rightarrow> (Return (Some err), tr2)
                     | (Return (Inr (svcPortInfoMap, negUsage)), tr2) \<Rightarrow>
                     (if len svcPortInfoMap \<noteq> 0
                      then (case syncNegStatusAnnotation c d namespace name svcPortInfoMap tr2 of
                              (GoPanic, tr3) \<Rightarrow> (GoPanic, tr3)
                            | (Return (Some err), tr3) \<Rightarrow> (Return (Some err), tr3)
                            | (Return None, tr3) \<Rightarrow>
                                (case manager_EnsureSyncersCall c namespace name
                                        svcPortInfoMap tr3 of
                                   ((successful, errors, err), tr4) \<Rightarrow>
                                     (Return err,
                                      tr4 @ [SetNegServiceCall key
                                               (negUsage\<lparr>SuccessfulNeg := successful,
                                                          ErrorNeg := errors\<rparr>)])))
                      else (syncNegStatusAnnotation c d namespace name fmempty
                              (tr2 @ [DeleteNegServiceCall key,
                                      StopSyncerCall namespace name])))))))))"

section \<open>Instances for the examples\<close>

text \<open>One implementation of the functions taken as parameters, and a control plane built
  from given answers; the examples below evaluate the source's functions on them.\<close>

definition exampleDeps :: Deps where
  "exampleDeps =
     \<lparr> CreateKey = (\<lambda>c name scope.
         (case scope of
            Global \<Rightarrow> Inr \<lparr>KeyName = name, KeyZone = [], KeyRegion = []\<rparr>
          | Regional \<Rightarrow> Inr \<lparr>KeyName = name, KeyZone = [], KeyRegion = Region c\<rparr>
          | Zonal \<Rightarrow> Inl (Errorf ''invalid resource type''))),
       VersionFromDescription = (\<lambda>desc.
         if desc = ''alpha'' then VersionAlpha
         else if desc = ''beta'' then VersionBeta else VersionGA),
       IsLowerVersion = (\<lambda>a b. a \<noteq> b \<and> (a = VersionAlpha \<or> b = VersionGA)),
       IsHTTPErrorCode = (\<lambda>err code. case err of ApiError c m \<Rightarrow> c = code | _ \<Rightarrow> False),
       IsInUsedByError = (\<lambda>err. case err of ApiError c m \<Rightarrow> c = 400 \<and> m = ''being used by'' | _ \<Rightarrow> False),
       IsNotFoundError = (\<lambda>err. case err of ApiError c m \<Rightarrow> c = 404 | _ \<Rightarrow> False),
       TranslateAffinityType = (\<lambda>s. if s = ''ClientIP'' then ''CLIENT_IP'' else ''NONE''),
       MakeL4LBServiceDescription = (\<lambda>svc ip v shared t. (svc, None)) \<rparr>"

definition exampleCloud ::
  "(call list \<Rightarrow> Version \<Rightarrow> error + BackendService)
     \<Rightarrow> (string \<Rightarrow> error + BackendServiceGroupHealth) \<Rightarrow> error option \<Rightarrow> Cloud" where
  "exampleCloud get health del =
     \<lparr> Region = ''r1'',
       GetBackendService = (\<lambda>tr key version. get tr version),
       CreateBackendService = (\<lambda>tr key be. None),
       UpdateBackendService = (\<lambda>tr key be. None),
       DeleteBackendService = (\<lambda>tr key version. del),
       GetGlobalBackendServiceHealth = (\<lambda>tr name grp. health grp),
       GetRegionalBackendServiceHealth = (\<lambda>tr name region grp. health grp) \<rparr>"

definition examplePool :: "(call list \<Rightarrow> Version \<Rightarrow> error + BackendService) \<Rightarrow> Backends" where
  "examplePool get =
     \<lparr> cloud = exampleCloud get (\<lambda>g. Inl (ApiError 500 [])) None,
       useConnectionTrackingPolicy = False \<rparr>"

definition existingBS :: BackendService where
  "existingBS =
     \<lparr> Name = ''bs'', Protocol = ''TCP'', Description = ''ns/svc'', HealthChecks = [''hc''],
       SessionAffinity = ''NONE'', LoadBalancingScheme = ''INTERNAL'',
       ConnectionTrackingPolicy = None, Network = [],
       ConnectionDraining = Some \<lparr>DrainingTimeoutSec = 45\<rparr>,
       Fingerprint = ''f1'', Backends = [\<lparr>Group = ''neg1''\<rparr>] \<rparr>"

definition regionalKey :: Key where
  "regionalKey = \<lparr>KeyName = ''bs'', KeyZone = [], KeyRegion = ''r1''\<rparr>"

definition globalKey :: Key where
  "globalKey = \<lparr>KeyName = ''bs'', KeyZone = [], KeyRegion = []\<rparr>"

definition exampleHealthPool ::
  "Backend list \<Rightarrow> (string \<Rightarrow> error + BackendServiceGroupHealth) \<Rightarrow> Backends" where
  "exampleHealthPool groups health =
     \<lparr> cloud = exampleCloud (\<lambda>tr v. Inr (existingBS\<lparr>Backends := groups\<rparr>)) health None,
       useConnectionTrackingPolicy = False \<rparr>"

definition threeGroups :: "Backend list" where
  "threeGroups = [\<lparr>Group = ''neg1''\<rparr>, \<lparr>Group = ''neg2''\<rparr>, \<lparr>Group = ''neg3''\<rparr>]"

definition firstGroupHealthy :: "string \<Rightarrow> error + BackendServiceGroupHealth" where
  "firstGroupHealthy grp =
     (if grp = ''neg1''
      then Inr \<lparr>HealthStatus = [Some \<lparr>HealthState = ''HEALTHY''\<rparr>,
                                Some \<lparr>HealthState = ''UNHEALTHY''\<rparr>]\<rparr>
      else Inl (ApiError 500 ''backend error''))"


definition noStatus :: "string \<Rightarrow> error + BackendServiceGroupHealth" where
  "noStatus grp =
     (if grp = ''neg1'' then Inr \<lparr>HealthStatus = []\<rparr>
      else Inr \<lparr>HealthStatus = [None]\<rparr>)"

text \<open>For the NEG controller: a world with the one service \<open>ns/svc\<close>, no ingress and
  the service ports 80 and 443.\<close>

definition examplePorts :: "SvcPortTuple list" where
  "examplePorts =
     [\<lparr>TuplePort = 80, TupleName = ''http'', TupleTargetPort = ''web''\<rparr>,
      \<lparr>TuplePort = 443, TupleName = ''https'', TupleTargetPort = ''tls''\<rparr>]"

definition exampleNegDeps :: NegDeps where
  "exampleNegDeps =
     \<lparr> SplitMetaNamespaceKey = (\<lambda>key.
         (takeWhile (\<lambda>ch. ch \<noteq> CHR ''/'') key,
          drop 1 (dropWhile (\<lambda>ch. ch \<noteq> CHR ''/'') key), None)),
       getServiceKey = (\<lambda>namespace name. namespace @ ''/'' @ name),
       NEGStatusKey = ''cloud.google.com/neg-status'',
       NEGAnnotation = (\<lambda>svc.
         (case Annotations (ObjectMeta svc) ''cloud.google.com/neg'' of
            None \<Rightarrow> (None, False, None)
          | Some v \<Rightarrow>
              if v = ''ingress+custom''
              then (Some \<lparr>Ingress = True, ExposedPorts = [(80, ''my-neg'')]\<rparr>, True, None)
              else if v = ''exposed''
              then (Some \<lparr>Ingress = False, ExposedPorts = [(80, [])]\<rparr>, True, None)
              else (None, True, Some (Errorf ''invalid annotation'')))),
       NEGEnabledForIngress = Ingress,
       NEGExposed = (\<lambda>ann. ExposedPorts ann \<noteq> []),
       negServicePorts = (\<lambda>ann known.
         (Set.filter (\<lambda>t. TuplePort t \<in> fst ` set (ExposedPorts ann)) known,
          fmap_of_list
            (concat (map (\<lambda>t. map (\<lambda>(p, n). (t, n))
                                 (filter (\<lambda>(p, n). p = TuplePort t \<and> n \<noteq> [] \<and> t \<in> known)
                                    (ExposedPorts ann)))
                      examplePorts)),
          None)),
       NewPortInfoMap = (\<lambda>namespace name tuples readinessGate customNames networkInfo.
         fmap_of_list
           (map (\<lambda>t. (\<lparr>InfoNamespace = namespace, InfoName = name, InfoTuple = t\<rparr>,
                       \<lparr>NegName = ''neg-'' @ name @ ''-'' @ TupleName t,
                         EndpointType = ''GCE_VM_IP_PORT'', ReadinessGate = readinessGate,
                         InfoNetwork = networkInfo, CustomName = None\<rparr>))
              (filter (\<lambda>t. t \<in> tuples) examplePorts))),
       NewPortInfoMapForVMIPNEG = (\<lambda>namespace name onlyLocal networkInfo.
         fmap_of_list
           [(\<lparr>InfoNamespace = namespace, InfoName = name,
              InfoTuple = \<lparr>TuplePort = 0, TupleName = [], TupleTargetPort = []\<rparr>\<rparr>,
             \<lparr>NegName = ''l4-'' @ name, EndpointType = ''GCE_VM_IP'', ReadinessGate = False,
               InfoNetwork = networkInfo, CustomName = None\<rparr>)]),
       Merge = (\<lambda>p1 p2.
         if \<forall>k. k |\<in>| fmdom p1 \<longrightarrow> fmlookup p2 k = None \<or> fmlookup p2 k = fmlookup p1 k
         then Inr (fmadd p1 p2) else Inl (Errorf ''conflicting port info'')),
       ListZonesMode = (\<lambda>portMap. ''L7''),
       NegStatusAnnotation = (\<lambda>zones portMap. (concat zones, None)),
       IsGCEL7ILBIngress = (\<lambda>ing. IngressClass ing = ''gce-internal''),
       IsGCEL7XLBRegionalIngress = (\<lambda>ing. IngressClass ing = ''gce-regional-external''),
       IsGCEIngress = (\<lambda>ing. IngressClass ing = ''gce''),
       IsGLBCIngress = (\<lambda>ing. IngressClass ing \<in> {''gce'', ''gce-internal''}),
       IngressBackends = (\<lambda>ing.
         map (\<lambda>be. \<lparr>IDService = \<lparr>Namespace = IngressNamespace ing,
                                   NsName = BackendServiceName be\<rparr>,
                      IDPort = BackendServicePort be\<rparr>) (IngressRules ing)),
       translator_ServicePort = (\<lambda>svc port.
         List.find (\<lambda>sp. PortName sp = BackendPortName port \<or> Port sp = BackendPortNumber port)
           (Ports (Spec svc))),
       WantsL4ILB = (\<lambda>svc. False),
       WantsL4NetLB = (\<lambda>svc. False),
       HasRBSAnnotation = (\<lambda>svc. False),
       IsSubsettingL4ILBService = (\<lambda>svc. False),
       RequestsOnlyLocalTraffic = (\<lambda>svc. False),
       IntOrString_String = (\<lambda>v. case v of StrVal str \<Rightarrow> str | IntVal n \<Rightarrow> ''0'') \<rparr>"

definition exampleService :: "(string \<rightharpoonup> string) \<Rightarrow> Service" where
  "exampleService annotations =
     \<lparr> ObjectMeta = \<lparr>MetaNamespace = ''ns'', MetaName = ''svc'', Annotations = annotations\<rparr>,
       Spec = \<lparr> Type = ''ClusterIP'',
                Ports = [\<lparr>PortName = ''http'', Port = 80, TargetPort = StrVal ''web''\<rparr>],
                Selector = [''app'' \<mapsto> ''web''], IPFamilyPolicy = None,
                IPFamilies = [''IPv4''], LoadBalancerClass = None \<rparr> \<rparr>"

definition exampleNetwork :: NetworkInfo where
  "exampleNetwork = \<lparr>IsDefault = True, NetworkURL = ''net'', SubnetworkURL = ''sub''\<rparr>"

definition exampleController :: "Service \<Rightarrow> Controller" where
  "exampleController svc =
     \<lparr> serviceLister_GetByKey = (\<lambda>tr key.
         if key = ''ns/svc'' then (ServicePtr (Some svc), True, None)
         else (NilObj, False, None)),
       ingressLister_List = (\<lambda>tr. []),
       zoneGetter_ListZones = (\<lambda>tr mode. ([''zone-a''], None)),
       networkResolver_ServiceNetwork = (\<lambda>tr svc. Inr exampleNetwork),
       manager_EnsureSyncers = (\<lambda>tr namespace name portMap. (1, 0, None)),
       patch_PatchServiceObjectMetadata = (\<lambda>tr svc newMeta. None),
       defaultBackendService =
         \<lparr> ID = \<lparr> IDService = \<lparr>Namespace = ''kube-system'',
                                 NsName = ''default-http-backend''\<rparr>,
                   IDPort = \<lparr>BackendPortName = ''http'', BackendPortNumber = 80\<rparr> \<rparr>,
           DefaultPort = 80, DefaultTargetPort = StrVal ''http'' \<rparr>,
       enableASM = False,
       asmServiceNEGSkipNamespaces = [],
       runL4 = True,
       enableIngressRegionalExternal = False \<rparr>"



definition customNamedWithIngress :: Service where
  "customNamedWithIngress = exampleService [''cloud.google.com/neg'' \<mapsto> ''ingress+custom'']"

section \<open>Theorems\<close>

subsection \<open>Get and Delete\<close>

text \<open>
  Claim C4. Whenever \<open>Get\<close> succeeds, the key was made and the first fetch, at the
  requested version, returned an object. If the version recorded in that object's
  description is lower than the requested one, \<open>Get\<close> fetched a second time at that
  lower version, right after the first fetch, and returns the object of the second fetch;
  otherwise it made no second fetch and returns the object of the first.
\<close>

theorem Get_refetches_at_lower_version:
  assumes "Get d b name version scope tr = (Inr be, tr')"
  shows "\<exists>key be1.
           CreateKey d (cloud b) name scope = Inr key \<and>
           GetBackendService (cloud b) tr key version = Inr be1 \<and>
           (if IsLowerVersion d (VersionFromDescription d (Description be1)) version
            then GetBackendService (cloud b) (tr @ [GetBackendServiceCall key version]) key
                   (VersionFromDescription d (Description be1)) = Inr be \<and>
                 tr' = tr @ [GetBackendServiceCall key version,
                             GetBackendServiceCall key (VersionFromDescription d (Description be1))]
            else be = be1 \<and> tr' = tr @ [GetBackendServiceCall key version])"
  using assms
  by (auto simp: Get_def composite_GetBackendService_def Let_def
           split: sum.splits if_splits prod.splits)

text \<open>A stored description that records beta while GA is requested: the object of the
  second fetch (fingerprint \<open>f2\<close>) is returned.\<close>

theorem Get_refetches_at_lower_version_witness:
  "Get exampleDeps
     (examplePool (\<lambda>tr v. if v = VersionGA then Inr (existingBS\<lparr>Description := ''beta''\<rparr>)
                           else Inr (existingBS\<lparr>Description := ''beta'', Fingerprint := ''f2''\<rparr>)))
     ''bs'' VersionGA Global []
     = (Inr (existingBS\<lparr>Description := ''beta'', Fingerprint := ''f2''\<rparr>),
        [GetBackendServiceCall globalKey VersionGA, GetBackendServiceCall globalKey VersionBeta])
   \<and> (\<exists>be1. GetBackendService
         (cloud (examplePool (\<lambda>tr v. if v = VersionGA then Inr (existingBS\<lparr>Description := ''beta''\<rparr>)
                           else Inr (existingBS\<lparr>Description := ''beta'', Fingerprint := ''f2''\<rparr>))))
         [] globalKey VersionGA = Inr be1 \<and>
        IsLowerVersion exampleDeps (VersionFromDescription exampleDeps (Description be1)) VersionGA)"
proof -
  let ?b = "examplePool (\<lambda>tr v. if v = VersionGA then Inr (existingBS\<lparr>Description := ''beta''\<rparr>)
                           else Inr (existingBS\<lparr>Description := ''beta'', Fingerprint := ''f2''\<rparr>))"
  have g: "Get exampleDeps ?b ''bs'' VersionGA Global []
     = (Inr (existingBS\<lparr>Description := ''beta'', Fingerprint := ''f2''\<rparr>),
        [GetBackendServiceCall globalKey VersionGA, GetBackendServiceCall globalKey VersionBeta])"
    by (simp add: Get_def composite_GetBackendService_def exampleDeps_def examplePool_def
          exampleCloud_def existingBS_def globalKey_def)
  from Get_refetches_at_lower_version [OF g] g show ?thesis
    by (auto simp: exampleDeps_def examplePool_def exampleCloud_def existingBS_def
          globalKey_def split: if_splits)
qed

text \<open>
  Claim C3. Once the key is made and the remote delete is issued, \<open>Delete\<close>
  returns success when the remote delete reports not-found (HTTP 404), success when it
  reports that the object is in use by another resource, and the error of the remote
  delete itself for every other failure.
\<close>

theorem Delete_result:
  assumes "CreateKey d (cloud b) name scope = Inr key"
    and "DeleteBackendService (cloud b) tr key version = Some err"
  shows "fst (Delete d b name version scope tr) =
           (if IsHTTPErrorCode d err StatusNotFound \<or> IsInUsedByError d err
            then None else Some err)"
  using assms by (simp add: Delete_def composite_DeleteBackendService_def)

text \<open>The three cases on a control plane that answers 404, in-use and 503.\<close>

theorem Delete_result_witness:
  "fst (Delete exampleDeps
          \<lparr>cloud = exampleCloud (\<lambda>tr v. Inr existingBS) (\<lambda>g. Inl (ApiError 500 []))
                     (Some (ApiError 404 ''not found'')),
            useConnectionTrackingPolicy = False\<rparr> ''bs'' VersionGA Global []) = None
   \<and> fst (Delete exampleDeps
          \<lparr>cloud = exampleCloud (\<lambda>tr v. Inr existingBS) (\<lambda>g. Inl (ApiError 500 []))
                     (Some (ApiError 400 ''being used by'')),
            useConnectionTrackingPolicy = False\<rparr> ''bs'' VersionGA Global []) = None
   \<and> fst (Delete exampleDeps
          \<lparr>cloud = exampleCloud (\<lambda>tr v. Inr existingBS) (\<lambda>g. Inl (ApiError 500 []))
                     (Some (ApiError 503 ''unavailable'')),
            useConnectionTrackingPolicy = False\<rparr> ''bs'' VersionGA Global [])
       = Some (ApiError 503 ''unavailable'')"
  using Delete_result [of exampleDeps
          "\<lparr>cloud = exampleCloud (\<lambda>tr v. Inr existingBS) (\<lambda>g. Inl (ApiError 500 []))
                     (Some (ApiError 404 ''not found'')),
            useConnectionTrackingPolicy = False\<rparr>" "''bs''" Global
          "\<lparr>KeyName = ''bs'', KeyZone = [], KeyRegion = []\<rparr>" "[]" VersionGA
          "ApiError 404 ''not found''"]
    Delete_result [of exampleDeps
          "\<lparr>cloud = exampleCloud (\<lambda>tr v. Inr existingBS) (\<lambda>g. Inl (ApiError 500 []))
                     (Some (ApiError 400 ''being used by'')),
            useConnectionTrackingPolicy = False\<rparr>" "''bs''" Global
          "\<lparr>KeyName = ''bs'', KeyZone = [], KeyRegion = []\<rparr>" "[]" VersionGA
          "ApiError 400 ''being used by''"]
    Delete_result [of exampleDeps
          "\<lparr>cloud = exampleCloud (\<lambda>tr v. Inr existingBS) (\<lambda>g. Inl (ApiError 500 []))
                     (Some (ApiError 503 ''unavailable'')),
            useConnectionTrackingPolicy = False\<rparr>" "''bs''" Global
          "\<lparr>KeyName = ''bs'', KeyZone = [], KeyRegion = []\<rparr>" "[]" VersionGA
          "ApiError 503 ''unavailable''"]
  by (simp add: exampleDeps_def exampleCloud_def StatusNotFound_def)

subsection \<open>Health\<close>

lemma Health_instances_none_healthy:
  assumes "\<forall>x\<in>set xs. \<exists>s. x = Some s \<and> HealthState s \<noteq> ''HEALTHY''"
  shows "Health_instances xs ret =
           Examined (if xs = [] then ret else HealthState (the (last xs)))"
  using assms by (induction xs arbitrary: ret) auto

lemma Health_instances_first_healthy:
  assumes "\<forall>x\<in>set before. \<exists>s. x = Some s \<and> HealthState s \<noteq> ''HEALTHY''"
    and "HealthState st = ''HEALTHY''"
  shows "Health_instances (before @ Some st # after) ret = FoundHealthy"
  using assms by (induction before arbitrary: ret) auto

lemma Health_backends_append:
  assumes "Health_backends b name scope pre ret tr = (Returned r None, tr2)"
    and "r \<noteq> ''HEALTHY''"
  shows "Health_backends b name scope (pre @ ys) ret tr = Health_backends b name scope ys r tr2"
  using assms
proof (induction pre arbitrary: ret tr)
  case Nil
  then show ?case by simp
next
  case (Cons g pre)
  then show ?case
    by (auto split: option.splits sum.splits prod.splits if_splits InstanceScan.splits)
qed

lemma reportsStatus_iff:
  "reportsStatus hs \<longleftrightarrow> \<not> (length (HealthStatus hs) = 0 \<or> HealthStatus hs ! 0 = None)"
  by (cases "HealthStatus hs") (auto simp: reportsStatus_def)

lemma examinedStatuses_Cons:
  "examinedStatuses (h # hss) =
     (if reportsStatus h then HealthStatus h @ examinedStatuses hss else examinedStatuses hss)"
  by (simp add: examinedStatuses_def)

lemma Health_backends_all_examined:
  assumes "Health_responses b name scope groups tr = map Inr hss"
    and "length hss = length groups"
    and "\<forall>x\<in>set (examinedStatuses hss). \<exists>s. x = Some s \<and> HealthState s \<noteq> ''HEALTHY''"
  shows "fst (Health_backends b name scope groups ret tr) =
           Returned (if examinedStatuses hss = [] then ret
                     else HealthState (the (last (examinedStatuses hss)))) None"
  using assms
proof (induction groups arbitrary: ret tr hss)
  case Nil
  then show ?case by (simp add: examinedStatuses_def)
next
  case (Cons g groups)
  from Cons.prems(2) obtain h hss' where hss: "hss = h # hss'"
    by (cases hss) auto
  from Cons.prems(1) hss obtain tr1 where
    look: "Health_lookup b name scope (Group g) tr = Some (Inr h, tr1)"
    and rest: "Health_responses b name scope groups tr1 = map Inr hss'"
    by (auto split: option.splits prod.splits)
  have len: "length hss' = length groups"
    using Cons.prems(2) hss by simp
  show ?case
  proof (cases "reportsStatus h")
    case False
    then have ex: "examinedStatuses hss = examinedStatuses hss'"
      by (simp add: hss examinedStatuses_Cons)
    have "fst (Health_backends b name scope (g # groups) ret tr) =
            fst (Health_backends b name scope groups ret tr1)"
      using look False by (auto simp: reportsStatus_iff)
    then show ?thesis
      using Cons.IH [OF rest len, of ret] Cons.prems(3) by (simp add: ex)
  next
    case True
    then have ex: "examinedStatuses hss = HealthStatus h @ examinedStatuses hss'"
      by (simp add: hss examinedStatuses_Cons)
    have ne: "HealthStatus h \<noteq> []"
      using True by (auto simp: reportsStatus_iff)
    have all_h: "\<forall>x\<in>set (HealthStatus h). \<exists>s. x = Some s \<and> HealthState s \<noteq> ''HEALTHY''"
      and all_r: "\<forall>x\<in>set (examinedStatuses hss'). \<exists>s. x = Some s \<and> HealthState s \<noteq> ''HEALTHY''"
      using Cons.prems(3) by (auto simp: ex)
    have inst: "Health_instances (HealthStatus h) ret =
                  Examined (HealthState (the (last (HealthStatus h))))"
      using Health_instances_none_healthy [OF all_h, of ret] ne by simp
    have "fst (Health_backends b name scope (g # groups) ret tr) =
            fst (Health_backends b name scope groups
                   (HealthState (the (last (HealthStatus h)))) tr1)"
      using look True inst by (auto simp: reportsStatus_iff)
    then show ?thesis
      using Cons.IH [OF rest len all_r, of "HealthState (the (last (HealthStatus h)))"] ne
      by (simp add: ex)
  qed
qed

lemma Health_backends_no_error:
  assumes "Health_responses b name scope groups tr = map Inr hss"
    and "length hss = length groups"
  shows "fst (Health_backends b name scope groups ret tr) \<noteq> Returned s (Some e)"
  using assms
proof (induction groups arbitrary: ret tr hss)
  case Nil
  then show ?case by simp
next
  case (Cons g groups)
  from Cons.prems(2) obtain h hss' where hss: "hss = h # hss'"
    by (cases hss) auto
  from Cons.prems(1) hss obtain tr1 where
    look: "Health_lookup b name scope (Group g) tr = Some (Inr h, tr1)"
    and rest: "Health_responses b name scope groups tr1 = map Inr hss'"
    by (auto split: option.splits prod.splits)
  have len: "length hss' = length groups"
    using Cons.prems(2) hss by simp
  show ?case
    using look Cons.IH [OF rest len]
    by (auto split: InstanceScan.splits)
qed

lemmas example_defs =
  exampleDeps_def exampleCloud_def exampleHealthPool_def existingBS_def globalKey_def
  regionalKey_def threeGroups_def Get_def composite_GetBackendService_def Health_lookup_def
  cloud_GetGlobalBackendServiceHealth_def cloud_GetRegionalBackendServiceHealth_def

text \<open>
  Claim C9. \<open>Health\<close> returns \<open>HEALTHY\<close> with no error as soon as it reads the first
  instance status equal to \<open>HEALTHY\<close>: when the groups before \<open>backend\<close> were
  looked up without a healthy instance (the loop over them ended with a state \<open>r\<close> other
  than \<open>HEALTHY\<close>) and the answer for \<open>backend\<close> has a \<open>HEALTHY\<close> entry
  after entries that are not, the call log ends with the lookup of \<open>backend\<close>: neither
  the entries after the healthy one nor the groups in \<open>rest\<close> are looked at.
\<close>

theorem Health_short_circuits_at_first_healthy:
  assumes "Get d b name version scope tr = (Inr be, tr1)"
    and "Backends be = pre @ backend # rest"
    and "Health_backends b name scope pre ''Unknown'' tr1 = (Returned r None, tr2)"
    and "r \<noteq> ''HEALTHY''"
    and "Health_lookup b name scope (Group backend) tr2 = Some (Inr hs, tr3)"
    and "HealthStatus hs = before @ Some st # after"
    and "\<forall>x\<in>set before. \<exists>s. x = Some s \<and> HealthState s \<noteq> ''HEALTHY''"
    and "HealthState st = ''HEALTHY''"
  shows "Health d b name version scope tr = (Returned ''HEALTHY'' None, tr3) \<and>
         length tr3 = Suc (length tr2)"
proof -
  have hd: "HealthStatus hs ! 0 \<noteq> None"
    using assms(6,7) by (cases before) auto
  have "Health_backends b name scope (backend # rest) r tr2 = (Returned ''HEALTHY'' None, tr3)"
    using assms(5) hd Health_instances_first_healthy [OF assms(7,8), of after r] assms(6)
    by auto
  then have "Health_backends b name scope (Backends be) ''Unknown'' tr1
               = (Returned ''HEALTHY'' None, tr3)"
    using Health_backends_append [OF assms(3,4)] assms(2) by simp
  moreover have "length tr3 = Suc (length tr2)"
    using assms(5)
    by (auto simp: Health_lookup_def cloud_GetGlobalBackendServiceHealth_def
          cloud_GetRegionalBackendServiceHealth_def split: KeyType.splits)
  ultimately show ?thesis
    using assms(1,2) by (simp add: Health_def)
qed

text \<open>Three groups, the first status of the first group \<open>HEALTHY\<close>: the log holds the
  fetch and one health lookup; the other two groups (which would answer with an error) are
  not queried.\<close>

theorem Health_short_circuits_at_first_healthy_witness:
  "Health exampleDeps (exampleHealthPool threeGroups firstGroupHealthy) ''bs'' VersionGA Global []
     = (Returned ''HEALTHY'' None,
        [GetBackendServiceCall globalKey VersionGA,
         GetGlobalBackendServiceHealthCall ''bs'' ''neg1''])"
proof -
  let ?b = "exampleHealthPool threeGroups firstGroupHealthy"
  let ?tr1 = "[GetBackendServiceCall globalKey VersionGA]"
  let ?tr3 = "[GetBackendServiceCall globalKey VersionGA,
               GetGlobalBackendServiceHealthCall ''bs'' ''neg1'']"
  have g: "Get exampleDeps ?b ''bs'' VersionGA Global []
             = (Inr (existingBS\<lparr>Backends := threeGroups\<rparr>), ?tr1)"
    by (simp add: example_defs)
  have bs: "Backends (existingBS\<lparr>Backends := threeGroups\<rparr>)
              = [] @ \<lparr>Group = ''neg1''\<rparr> # [\<lparr>Group = ''neg2''\<rparr>, \<lparr>Group = ''neg3''\<rparr>]"
    by (simp add: threeGroups_def)
  have pre: "Health_backends ?b ''bs'' Global [] ''Unknown'' ?tr1 = (Returned ''Unknown'' None, ?tr1)"
    by simp
  have look: "Health_lookup ?b ''bs'' Global (Group \<lparr>Group = ''neg1''\<rparr>) ?tr1
      = Some (Inr \<lparr>HealthStatus = [Some \<lparr>HealthState = ''HEALTHY''\<rparr>,
                                     Some \<lparr>HealthState = ''UNHEALTHY''\<rparr>]\<rparr>, ?tr3)"
    by (simp add: example_defs firstGroupHealthy_def)
  have st: "HealthStatus \<lparr>HealthStatus = [Some \<lparr>HealthState = ''HEALTHY''\<rparr>,
                                     Some \<lparr>HealthState = ''UNHEALTHY''\<rparr>]\<rparr>
              = [] @ Some \<lparr>HealthState = ''HEALTHY''\<rparr> # [Some \<lparr>HealthState = ''UNHEALTHY''\<rparr>]"
    by simp
  show ?thesis
    using Health_short_circuits_at_first_healthy [OF g bs pre _ look st]
    by simp
qed



text \<open>
  Claim C1. As stated the claim fails: on an empty list of attached backends
  \<open>Health\<close> returns \<open>Unknown\<close> together with an error, though no remote call
  failed.
\<close>

theorem Health_empty_backends_counterexample:
  "fst (Get exampleDeps (exampleHealthPool [] noStatus) ''bs'' VersionGA Global [])
     = Inr (existingBS\<lparr>Backends := []\<rparr>) \<and>
   Health exampleDeps (exampleHealthPool [] noStatus) ''bs'' VersionGA Global []
     = (Returned ''Unknown'' (Some (ErrNoBackendsFound ''bs'')),
        [GetBackendServiceCall globalKey VersionGA])"
  by (simp add: Health_def example_defs)

text \<open>
  Claim C1, amended. When the initial fetch succeeds: on an empty list of attached
  backends \<open>Health\<close> returns \<open>Unknown\<close> with the error "no backends found"; on a
  non-empty list whose lookups all succeed (one answer for each group) it returns no
  error, and it returns \<open>Unknown\<close> with no error when no group reports a status.
\<close>

theorem Health_unknown_and_errors:
  assumes "Get d b name version scope tr = (Inr be, tr1)"
  shows "(Backends be = [] \<longrightarrow>
            Health d b name version scope tr =
              (Returned ''Unknown'' (Some (ErrNoBackendsFound name)), tr1)) \<and>
         (Backends be \<noteq> [] \<and>
          Health_responses b name scope (Backends be) tr1 = map Inr hss \<and>
          length hss = length (Backends be) \<longrightarrow>
            (\<forall>s e. fst (Health d b name version scope tr) \<noteq> Returned s (Some e)) \<and>
            ((\<forall>hs\<in>set hss. \<not> reportsStatus hs) \<longrightarrow>
               fst (Health d b name version scope tr) = Returned ''Unknown'' None))"
proof (intro conjI impI)
  assume "Backends be = []"
  then show "Health d b name version scope tr =
              (Returned ''Unknown'' (Some (ErrNoBackendsFound name)), tr1)"
    using assms by (simp add: Health_def)
next
  assume a: "Backends be \<noteq> [] \<and>
          Health_responses b name scope (Backends be) tr1 = map Inr hss \<and>
          length hss = length (Backends be)"
  then have h: "Health d b name version scope tr =
                  Health_backends b name scope (Backends be) ''Unknown'' tr1"
    using assms by (simp add: Health_def)
  show "\<forall>s e. fst (Health d b name version scope tr) \<noteq> Returned s (Some e)"
    using Health_backends_no_error [of b name scope "Backends be" tr1 hss] a h by simp
  assume n: "\<forall>hs\<in>set hss. \<not> reportsStatus hs"
  then have "filter reportsStatus hss = []"
    by (induction hss) auto
  then have e: "examinedStatuses hss = []"
    by (simp add: examinedStatuses_def)
  show "fst (Health d b name version scope tr) = Returned ''Unknown'' None"
    using Health_backends_all_examined [of b name scope "Backends be" tr1 hss "''Unknown''"] a h e
    by simp
qed

theorem Health_unknown_and_errors_witness:
  "Health exampleDeps (exampleHealthPool [] noStatus) ''bs'' VersionGA Global []
     = (Returned ''Unknown'' (Some (ErrNoBackendsFound ''bs'')),
        [GetBackendServiceCall globalKey VersionGA]) \<and>
   fst (Health exampleDeps (exampleHealthPool threeGroups noStatus) ''bs'' VersionGA Global [])
     = Returned ''Unknown'' None"
proof -
  let ?b0 = "exampleHealthPool [] noStatus"
  let ?b3 = "exampleHealthPool threeGroups noStatus"
  let ?hss = "[\<lparr>HealthStatus = []\<rparr>, \<lparr>HealthStatus = [None]\<rparr>, \<lparr>HealthStatus = [None]\<rparr>]"
  have g0: "Get exampleDeps ?b0 ''bs'' VersionGA Global []
             = (Inr (existingBS\<lparr>Backends := []\<rparr>), [GetBackendServiceCall globalKey VersionGA])"
    by (simp add: example_defs)
  have g3: "Get exampleDeps ?b3 ''bs'' VersionGA Global []
             = (Inr (existingBS\<lparr>Backends := threeGroups\<rparr>),
                [GetBackendServiceCall globalKey VersionGA])"
    by (simp add: example_defs)
  have r: "Health_responses ?b3 ''bs'' Global (Backends (existingBS\<lparr>Backends := threeGroups\<rparr>))
             [GetBackendServiceCall globalKey VersionGA] = map Inr ?hss"
    by (simp add: example_defs noStatus_def)
  have n: "\<forall>hs\<in>set ?hss. \<not> reportsStatus hs"
    by (simp add: reportsStatus_def)
  have "Health exampleDeps ?b0 ''bs'' VersionGA Global []
     = (Returned ''Unknown'' (Some (ErrNoBackendsFound ''bs'')),
        [GetBackendServiceCall globalKey VersionGA])"
    using Health_unknown_and_errors [OF g0, of "[]"] by simp
  moreover have "fst (Health exampleDeps ?b3 ''bs'' VersionGA Global []) = Returned ''Unknown'' None"
    using Health_unknown_and_errors [OF g3, of ?hss] r n by (simp add: threeGroups_def)
  ultimately show ?thesis by simp
qed

subsection \<open>backendSvcEqual and EnsureL4BackendService\<close>

lemma connectionTrackingPolicyEqual_refl:
  "connectionTrackingPolicyEqual a a"
  by (cases a) (auto simp: connectionTrackingPolicyEqual_def)

text \<open>
  Claim C5. \<open>backendSvcEqual\<close> is reflexive; its result does not change when
  the attached backends and the connection draining of either object are replaced; and it
  is false whenever the two objects differ in protocol, description, session affinity,
  load-balancing scheme, health checks taken as a set, or network.
\<close>

theorem backendSvcEqual_properties:
  "backendSvcEqual a a c \<and>
   backendSvcEqual (a\<lparr>Backends := ba, ConnectionDraining := da\<rparr>)
     (b\<lparr>Backends := bb, ConnectionDraining := db\<rparr>) c = backendSvcEqual a b c \<and>
   (Protocol a \<noteq> Protocol b \<or> Description a \<noteq> Description b \<or>
    SessionAffinity a \<noteq> SessionAffinity b \<or>
    LoadBalancingScheme a \<noteq> LoadBalancingScheme b \<or>
    set (HealthChecks a) \<noteq> set (HealthChecks b) \<or> Network a \<noteq> Network b
      \<longrightarrow> \<not> backendSvcEqual a b c)"
  by (auto simp: backendSvcEqual_def EqualStringSets_def connectionTrackingPolicyEqual_refl)

theorem backendSvcEqual_properties_witness:
  "backendSvcEqual existingBS existingBS True \<and>
   backendSvcEqual (existingBS\<lparr>Backends := [], ConnectionDraining := None\<rparr>)
     (existingBS\<lparr>Backends := [\<lparr>Group = ''neg2''\<rparr>],
                 ConnectionDraining := Some \<lparr>DrainingTimeoutSec = 0\<rparr>\<rparr>) True \<and>
   Protocol existingBS \<noteq> Protocol (existingBS\<lparr>Protocol := ''UDP''\<rparr>) \<and>
   \<not> backendSvcEqual existingBS (existingBS\<lparr>Protocol := ''UDP''\<rparr>) True \<and>
   set (HealthChecks existingBS) \<noteq> set (HealthChecks (existingBS\<lparr>HealthChecks := [''hc2'']\<rparr>)) \<and>
   \<not> backendSvcEqual existingBS (existingBS\<lparr>HealthChecks := [''hc2'']\<rparr>) False"
  using backendSvcEqual_properties [where a = existingBS and b = existingBS and c = True
          and ba = "[]" and da = None and bb = "[\<lparr>Group = ''neg2''\<rparr>]"
          and db = "Some \<lparr>DrainingTimeoutSec = 0\<rparr>"]
    backendSvcEqual_properties [where a = existingBS
          and b = "existingBS\<lparr>Protocol := ''UDP''\<rparr>" and c = True]
    backendSvcEqual_properties [where a = existingBS
          and b = "existingBS\<lparr>HealthChecks := [''hc2'']\<rparr>" and c = False]
  by (simp add: existingBS_def)

text \<open>
  Claim C6. When the existing backend service is found and agrees with the desired
  object on every compared attribute (health checks as a set; the connection tracking
  policy when the pool uses it), whatever its draining timeout, fingerprint and attached
  backends, \<open>EnsureL4BackendService\<close> returns the fetched object itself and the only
  call it made is the fetch: no update is issued.
\<close>

theorem EnsureL4BackendService_skips_update:
  assumes "CreateKey d (cloud b) name Regional = Inr key"
    and "GetBackendService (cloud b) tr key VersionGA = Inr bs"
    and "expected = expectedBS d b name hcLink protocol sessionAffinity scheme nn nw ctp"
    and "Protocol bs = Protocol expected"
    and "Description bs = Description expected"
    and "SessionAffinity bs = SessionAffinity expected"
    and "LoadBalancingScheme bs = LoadBalancingScheme expected"
    and "set (HealthChecks bs) = set (HealthChecks expected)"
    and "Network bs = Network expected"
    and "useConnectionTrackingPolicy b \<Longrightarrow>
           ConnectionTrackingPolicy bs = ConnectionTrackingPolicy expected"
  shows "EnsureL4BackendService d b name hcLink protocol sessionAffinity scheme nn nw ctp tr
           = (Inr bs, tr @ [GetBackendServiceCall key VersionGA])"
proof -
  have "backendSvcEqual expected bs (useConnectionTrackingPolicy b)"
    using assms(4-10) connectionTrackingPolicyEqual_refl [of "ConnectionTrackingPolicy expected"]
    by (auto simp: backendSvcEqual_def EqualStringSets_def)
  then show ?thesis
    using assms(1-3)
    by (simp add: EnsureL4BackendService_def composite_GetBackendService_def Let_def)
qed

text \<open>An existing object with draining timeout 45 against the desired default 30.\<close>

theorem EnsureL4BackendService_skips_update_witness:
  "ConnectionDraining existingBS
     \<noteq> ConnectionDraining (expectedBS exampleDeps (examplePool (\<lambda>tr v. Inr existingBS)) ''bs''
          ''hc'' ''TCP'' ''None'' ''INTERNAL'' \<lparr>Namespace = ''ns'', NsName = ''svc''\<rparr>
          \<lparr>IsDefault = True, NetworkURL = ''net'', SubnetworkURL = ''sub''\<rparr> None) \<and>
   EnsureL4BackendService exampleDeps (examplePool (\<lambda>tr v. Inr existingBS)) ''bs'' ''hc''
     ''TCP'' ''None'' ''INTERNAL'' \<lparr>Namespace = ''ns'', NsName = ''svc''\<rparr>
     \<lparr>IsDefault = True, NetworkURL = ''net'', SubnetworkURL = ''sub''\<rparr> None []
     = (Inr existingBS, [GetBackendServiceCall regionalKey VersionGA])"
proof -
  let ?b = "examplePool (\<lambda>tr v. Inr existingBS)"
  let ?e = "expectedBS exampleDeps ?b ''bs''
          ''hc'' ''TCP'' ''None'' ''INTERNAL'' \<lparr>Namespace = ''ns'', NsName = ''svc''\<rparr>
          \<lparr>IsDefault = True, NetworkURL = ''net'', SubnetworkURL = ''sub''\<rparr> None"
  have k: "CreateKey exampleDeps (cloud ?b) ''bs'' Regional = Inr regionalKey"
    by (simp add: exampleDeps_def examplePool_def exampleCloud_def regionalKey_def)
  have f: "GetBackendService (cloud ?b) [] regionalKey VersionGA = Inr existingBS"
    by (simp add: examplePool_def exampleCloud_def)
  have e: "?e = existingBS\<lparr>ConnectionDraining := Some \<lparr>DrainingTimeoutSec = 30\<rparr>,
                            Fingerprint := [], Backends := []\<rparr>"
    by (simp add: expectedBS_def exampleDeps_def examplePool_def existingBS_def
          NamespacedName_String_def ProtocolTCP_def DefaultConnectionDrainingTimeoutSeconds_def)
  have u: "\<not> useConnectionTrackingPolicy ?b"
    by (simp add: examplePool_def)
  have "EnsureL4BackendService exampleDeps ?b ''bs'' ''hc''
     ''TCP'' ''None'' ''INTERNAL'' \<lparr>Namespace = ''ns'', NsName = ''svc''\<rparr>
     \<lparr>IsDefault = True, NetworkURL = ''net'', SubnetworkURL = ''sub''\<rparr> None []
     = (Inr existingBS, [] @ [GetBackendServiceCall regionalKey VersionGA])"
    by (rule EnsureL4BackendService_skips_update [OF k f refl]) (simp_all add: e u)
  moreover have "ConnectionDraining existingBS \<noteq> ConnectionDraining ?e"
    by (simp add: e) (simp add: existingBS_def)
  ultimately show ?thesis by simp
qed

lemma EnsureL4BackendService_calls:
  assumes "EnsureL4BackendService d b name hcLink protocol sa scheme nn nw ctp tr = (res, tr')"
  shows "tr' = tr \<or>
    (\<exists>key. CreateKey d (cloud b) name Regional = Inr key \<and>
       (let expected = expectedBS d b name hcLink protocol sa scheme nn nw ctp;
            g = GetBackendServiceCall key VersionGA in
        tr' = tr @ [g] \<or>
        tr' = tr @ [g, CreateBackendServiceCall key expected] \<or>
        tr' = tr @ [g, CreateBackendServiceCall key expected, g] \<or>
        (\<exists>bs. GetBackendService (cloud b) tr key VersionGA = Inr bs \<and>
           (tr' = tr @ [g, UpdateBackendServiceCall key (updatedBS expected bs protocol)] \<or>
            tr' = tr @ [g, UpdateBackendServiceCall key (updatedBS expected bs protocol), g]))))"
  using assms
  by (auto simp: EnsureL4BackendService_def composite_GetBackendService_def
        composite_CreateBackendService_def composite_UpdateBackendService_def Let_def
      split: sum.splits if_splits prod.splits option.splits)

lemma ConnectionDraining_expectedBS:
  "ConnectionDraining (expectedBS d b name hcLink protocol sa scheme nn nw ctp) =
     (if protocol = ProtocolTCP
      then Some \<lparr>DrainingTimeoutSec = DefaultConnectionDrainingTimeoutSeconds\<rparr>
      else Some \<lparr>DrainingTimeoutSec = 0\<rparr>)"
  by (simp add: expectedBS_def)

lemma ConnectionDraining_updatedBS:
  "ConnectionDraining (updatedBS expected bs protocol) =
     (case ConnectionDraining bs of
        Some cd \<Rightarrow>
          if 0 <s DrainingTimeoutSec cd \<and> protocol = ProtocolTCP
          then Some \<lparr>DrainingTimeoutSec = DrainingTimeoutSec cd\<rparr>
          else ConnectionDraining expected
      | None \<Rightarrow> ConnectionDraining expected)"
  by (simp add: updatedBS_def Let_def split: option.splits)

text \<open>
  Claim C2. Every backend service that \<open>EnsureL4BackendService\<close> submits (by
  create or by update) for a protocol other than TCP has draining timeout zero, whatever
  the existing object had; for TCP, when the existing object has a positive draining
  timeout, the update submits that timeout.
\<close>

theorem EnsureL4BackendService_draining_timeout:
  assumes "EnsureL4BackendService d b name hcLink protocol sa scheme nn nw ctp tr = (res, tr')"
  shows "\<exists>new. tr' = tr @ new \<and>
     (protocol \<noteq> ProtocolTCP \<longrightarrow>
        (\<forall>k be. CreateBackendServiceCall k be \<in> set new \<or>
                UpdateBackendServiceCall k be \<in> set new
           \<longrightarrow> ConnectionDraining be = Some \<lparr>DrainingTimeoutSec = 0\<rparr>)) \<and>
     (protocol = ProtocolTCP \<longrightarrow>
        (\<forall>key bs cd k be.
           CreateKey d (cloud b) name Regional = Inr key \<and>
           GetBackendService (cloud b) tr key VersionGA = Inr bs \<and>
           ConnectionDraining bs = Some cd \<and> 0 <s DrainingTimeoutSec cd \<and>
           UpdateBackendServiceCall k be \<in> set new
           \<longrightarrow> ConnectionDraining be = Some \<lparr>DrainingTimeoutSec = DrainingTimeoutSec cd\<rparr>))"
proof -
  let ?e = "expectedBS d b name hcLink protocol sa scheme nn nw ctp"
  from EnsureL4BackendService_calls [OF assms]
  consider (none) "tr' = tr"
    | (calls) key where "CreateKey d (cloud b) name Regional = Inr key"
        and "tr' = tr @ [GetBackendServiceCall key VersionGA] \<or>
          tr' = tr @ [GetBackendServiceCall key VersionGA, CreateBackendServiceCall key ?e] \<or>
          tr' = tr @ [GetBackendServiceCall key VersionGA, CreateBackendServiceCall key ?e,
                      GetBackendServiceCall key VersionGA] \<or>
          (\<exists>bs. GetBackendService (cloud b) tr key VersionGA = Inr bs \<and>
            (tr' = tr @ [GetBackendServiceCall key VersionGA,
                         UpdateBackendServiceCall key (updatedBS ?e bs protocol)] \<or>
             tr' = tr @ [GetBackendServiceCall key VersionGA,
                         UpdateBackendServiceCall key (updatedBS ?e bs protocol),
                         GetBackendServiceCall key VersionGA]))"
    by (auto simp: Let_def)
  then show ?thesis
  proof cases
    case none
    then show ?thesis by simp
  next
    case calls
    from calls(2) show ?thesis
      using calls(1)
      by (elim disjE exE conjE)
         (auto simp: ConnectionDraining_expectedBS ConnectionDraining_updatedBS
               split: option.splits)
  qed
qed

text \<open>Existing TCP object with timeout 45: switching to UDP submits 0; changing the
  scheme under TCP submits 45.\<close>

theorem EnsureL4BackendService_draining_timeout_witness:
  "snd (EnsureL4BackendService exampleDeps (examplePool (\<lambda>tr v. Inr existingBS)) ''bs'' ''hc''
     ''UDP'' ''None'' ''INTERNAL'' \<lparr>Namespace = ''ns'', NsName = ''svc''\<rparr>
     \<lparr>IsDefault = True, NetworkURL = ''net'', SubnetworkURL = ''sub''\<rparr> None [])
     = [GetBackendServiceCall regionalKey VersionGA,
        UpdateBackendServiceCall regionalKey
          (existingBS\<lparr>Protocol := ''UDP'',
                      ConnectionDraining := Some \<lparr>DrainingTimeoutSec = 0\<rparr>\<rparr>),
        GetBackendServiceCall regionalKey VersionGA] \<and>
   ConnectionDraining existingBS = Some \<lparr>DrainingTimeoutSec = 45\<rparr> \<and>
   snd (EnsureL4BackendService exampleDeps (examplePool (\<lambda>tr v. Inr existingBS)) ''bs'' ''hc''
     ''TCP'' ''None'' ''EXTERNAL'' \<lparr>Namespace = ''ns'', NsName = ''svc''\<rparr>
     \<lparr>IsDefault = True, NetworkURL = ''net'', SubnetworkURL = ''sub''\<rparr> None [])
     = [GetBackendServiceCall regionalKey VersionGA,
        UpdateBackendServiceCall regionalKey (existingBS\<lparr>LoadBalancingScheme := ''EXTERNAL''\<rparr>),
        GetBackendServiceCall regionalKey VersionGA]"
proof -
  let ?b = "examplePool (\<lambda>tr v. Inr existingBS)"
  let ?nn = "\<lparr>Namespace = ''ns'', NsName = ''svc''\<rparr>"
  let ?nw = "\<lparr>IsDefault = True, NetworkURL = ''net'', SubnetworkURL = ''sub''\<rparr>"
  let ?g = "GetBackendServiceCall regionalKey VersionGA"
  have k: "CreateKey exampleDeps (cloud ?b) ''bs'' Regional = Inr regionalKey"
    by (simp add: exampleDeps_def examplePool_def exampleCloud_def regionalKey_def)
  have f: "GetBackendService (cloud ?b) [] regionalKey VersionGA = Inr existingBS"
    by (simp add: examplePool_def exampleCloud_def)
  have p: "0 <s DrainingTimeoutSec \<lparr>DrainingTimeoutSec = 45\<rparr>"
    by (simp add: word_sless_alt)
  have c: "ConnectionDraining existingBS = Some \<lparr>DrainingTimeoutSec = 45\<rparr>"
    by (simp add: existingBS_def)
  obtain r1 t1 where u: "EnsureL4BackendService exampleDeps ?b ''bs'' ''hc'' ''UDP'' ''None''
      ''INTERNAL'' ?nn ?nw None [] = (r1, t1)"
    by (cases "EnsureL4BackendService exampleDeps ?b ''bs'' ''hc'' ''UDP'' ''None''
      ''INTERNAL'' ?nn ?nw None []")
  obtain r2 t2 where t: "EnsureL4BackendService exampleDeps ?b ''bs'' ''hc'' ''TCP'' ''None''
      ''EXTERNAL'' ?nn ?nw None [] = (r2, t2)"
    by (cases "EnsureL4BackendService exampleDeps ?b ''bs'' ''hc'' ''TCP'' ''None''
      ''EXTERNAL'' ?nn ?nw None []")
  have ue: "\<exists>be. t1 = [?g, UpdateBackendServiceCall regionalKey be, ?g] \<and>
            be\<lparr>ConnectionDraining := None\<rparr>
              = existingBS\<lparr>Protocol := ''UDP'', ConnectionDraining := None\<rparr>"
    using u
    by (auto simp: EnsureL4BackendService_def composite_GetBackendService_def
          composite_UpdateBackendService_def backendSvcEqual_def expectedBS_def updatedBS_def
          exampleDeps_def examplePool_def exampleCloud_def existingBS_def regionalKey_def
          NamespacedName_String_def ProtocolTCP_def EqualStringSets_def
          DefaultConnectionDrainingTimeoutSeconds_def word_sless_alt Let_def)
  have te: "\<exists>be. t2 = [?g, UpdateBackendServiceCall regionalKey be, ?g] \<and>
            be\<lparr>ConnectionDraining := None\<rparr>
              = existingBS\<lparr>LoadBalancingScheme := ''EXTERNAL'', ConnectionDraining := None\<rparr>"
    using t
    by (auto simp: EnsureL4BackendService_def composite_GetBackendService_def
          composite_UpdateBackendService_def backendSvcEqual_def expectedBS_def updatedBS_def
          exampleDeps_def examplePool_def exampleCloud_def existingBS_def regionalKey_def
          NamespacedName_String_def ProtocolTCP_def EqualStringSets_def
          DefaultConnectionDrainingTimeoutSeconds_def word_sless_alt Let_def)
  from ue obtain be1 where be1: "t1 = [?g, UpdateBackendServiceCall regionalKey be1, ?g]"
    "be1\<lparr>ConnectionDraining := None\<rparr>
       = existingBS\<lparr>Protocol := ''UDP'', ConnectionDraining := None\<rparr>" by blast
  from te obtain be2 where be2: "t2 = [?g, UpdateBackendServiceCall regionalKey be2, ?g]"
    "be2\<lparr>ConnectionDraining := None\<rparr>
       = existingBS\<lparr>LoadBalancingScheme := ''EXTERNAL'', ConnectionDraining := None\<rparr>" by blast
  have d1: "ConnectionDraining be1 = Some \<lparr>DrainingTimeoutSec = 0\<rparr>"
    using EnsureL4BackendService_draining_timeout [OF u] be1(1)
    by (auto simp: ProtocolTCP_def)
  have d2: "ConnectionDraining be2 = Some \<lparr>DrainingTimeoutSec = 45\<rparr>"
    using EnsureL4BackendService_draining_timeout [OF t] be2(1) k f c p
    by (auto simp: ProtocolTCP_def)
  have e1: "be1 = existingBS\<lparr>Protocol := ''UDP'',
              ConnectionDraining := Some \<lparr>DrainingTimeoutSec = 0\<rparr>\<rparr>"
    using be1(2) d1 by (cases be1) (simp add: existingBS_def)
  have e2: "be2 = existingBS\<lparr>LoadBalancingScheme := ''EXTERNAL''\<rparr>"
    using be2(2) d2 by (cases be2) (simp add: existingBS_def)
  show ?thesis
    using u t be1(1) be2(1) e1 e2 c by simp
qed

subsection \<open>The NEG controller\<close>

lemma len_eq_0_iff: "len m = 0 \<longleftrightarrow> m = fmempty"
proof
  assume "len m = 0"
  then have "fmdom m = {||}"
    by (simp add: len_def)
  then show "m = fmempty"
    by (metis fmdom_notD fmap_ext fmempty_lookup fempty_iff)
next
  assume "m = fmempty"
  then show "len m = 0" by (simp add: len_def)
qed

lemma mergeStandaloneNEGsPortInfo_rejects:
  assumes "NEGAnnotation d service = (Some ann, True, None)"
    and "NEGEnabledForIngress d ann"
    and "NEGExposed d ann"
    and "negServicePorts d ann (gatherPortMappingFromService d service)
           = (exposed, customNames, perr)"
    and "fmlookup customNames tuple = Some customName"
  shows "mergeStandaloneNEGsPortInfo c d service nn m u ni =
           Inl (case perr of Some e \<Rightarrow> e
                | None \<Rightarrow> ErrCustomNegNameWithIngress (NamespacedName_String nn))"
proof -
  have "customNames \<noteq> fmempty"
    using assms(5) by auto
  then have "len customNames \<noteq> 0"
    by (simp add: len_eq_0_iff)
  then show ?thesis
    using assms(1-4)
    by (cases perr) (simp_all add: mergeStandaloneNEGsPortInfo_def
          gatherPortMappingFromService_def Let_def)
qed

lemma mergeDefaultBackendServicePortInfoMap_returns:
  assumes "NEGAnnotation d service = (Some ann, True, None)"
    and "mergeDefaultBackendServicePortInfoMap c d key service m ni tr = (GoPanic, tr')"
  shows False
  using assms
  by (auto simp: mergeDefaultBackendServicePortInfoMap_def
           split: prod.splits sum.splits if_splits option.splits)

lemmas neg_example_defs =
  exampleController_def exampleNegDeps_def exampleService_def exampleNetwork_def
  examplePorts_def


text \<open>
  Claim C7. For a service whose NEG annotation is parsed, enables ingress mode, exposes
  standalone ports, and for which \<open>negServicePorts\<close> yields at least one custom name,
  the desired-state resolution returns an error, whatever the other sources contribute;
  and so does \<open>processService\<close> when the lister hands it this service.
\<close>

theorem custom_names_with_ingress_rejected:
  assumes "NEGAnnotation d service = (Some ann, True, None)"
    and "NEGEnabledForIngress d ann"
    and "NEGExposed d ann"
    and "negServicePorts d ann (gatherPortMappingFromService d service)
           = (exposed, customNames, perr)"
    and "fmlookup customNames tuple = Some customName"
  shows "(\<exists>e. fst (resolvePortInfoMap c d key namespace name service tr) = Return (Inl e)) \<and>
         (serviceLister_GetByKey c tr key = (ServicePtr (Some service), True, None)
            \<longrightarrow> (\<exists>e. fst (processService c d key tr) = Return (Some e)))"
proof -
  have r: "\<exists>e. fst (resolvePortInfoMap c d key namespace name service tr) = Return (Inl e)"
    for namespace name tr
    by (auto simp: resolvePortInfoMap_def Let_def mergeStandaloneNEGsPortInfo_rejects [OF assms]
          split: prod.splits sum.splits outcome.splits
          dest: mergeDefaultBackendServicePortInfoMap_returns [OF assms(1)])
  have "\<exists>e. fst (processService c d key tr) = Return (Some e)"
    if g: "serviceLister_GetByKey c tr key = (ServicePtr (Some service), True, None)"
  proof -
    obtain namespace name serr where s: "SplitMetaNamespaceKey d key = (namespace, name, serr)"
      by (cases "SplitMetaNamespaceKey d key")
    obtain e tr2 where
      "resolvePortInfoMap c d key namespace name service (tr @ [GetByKeyCall key])
         = (Return (Inl e), tr2)"
      using r [of namespace name "tr @ [GetByKeyCall key]"]
      by (cases "resolvePortInfoMap c d key namespace name service (tr @ [GetByKeyCall key])")
         auto
    then show ?thesis
      using g s
      by (cases serr) (simp_all add: processService_def serviceLister_GetByKeyCall_def)
  qed
  with r show ?thesis by blast
qed

text \<open>A service whose annotation enables ingress and names the NEG of port 80.\<close>

theorem custom_names_with_ingress_rejected_witness:
  "fst (processService (exampleController customNamedWithIngress) exampleNegDeps ''ns/svc'' [])
     = Return (Some (ErrCustomNegNameWithIngress ''ns/svc''))"
proof -
  let ?ann = "\<lparr>Ingress = True, ExposedPorts = [(80, ''my-neg'')]\<rparr>"
  let ?t = "\<lparr>TuplePort = 80, TupleName = ''http'', TupleTargetPort = ''web''\<rparr>"
  have a: "NEGAnnotation exampleNegDeps customNamedWithIngress = (Some ?ann, True, None)"
    by (simp add: neg_example_defs customNamedWithIngress_def)
  have i: "NEGEnabledForIngress exampleNegDeps ?ann" and x: "NEGExposed exampleNegDeps ?ann"
    by (simp_all add: exampleNegDeps_def)
  have known: "gatherPortMappingFromService exampleNegDeps customNamedWithIngress = {?t}"
    by (simp add: gatherPortMappingFromService_def svcPortTuple_def neg_example_defs
          customNamedWithIngress_def)
  have n: "negServicePorts exampleNegDeps ?ann
             (gatherPortMappingFromService exampleNegDeps customNamedWithIngress)
           = ({?t}, fmap_of_list [(?t, ''my-neg'')], None)"
    unfolding known by (auto simp: exampleNegDeps_def examplePorts_def)
  have c: "fmlookup (fmap_of_list [(?t, ''my-neg'')]) ?t = Some ''my-neg''"
    by simp
  have g: "serviceLister_GetByKey (exampleController customNamedWithIngress) [] ''ns/svc''
             = (ServicePtr (Some customNamedWithIngress), True, None)"
    by (simp add: exampleController_def)
  from custom_names_with_ingress_rejected [OF a i x n c,
         of "exampleController customNamedWithIngress" "''ns/svc''" "''ns''" "''svc''" "[]"] g
  obtain e where e: "fst (processService (exampleController customNamedWithIngress)
                            exampleNegDeps ''ns/svc'' []) = Return (Some e)"
    by blast
  let ?c = "exampleController customNamedWithIngress"
  have nr: "networkResolver_ServiceNetworkCall ?c customNamedWithIngress tr
              = (Inr exampleNetwork, tr @ [ServiceNetworkCall customNamedWithIngress])" for tr
    by (simp add: networkResolver_ServiceNetworkCall_def exampleController_def)
  have md: "mergeDefaultBackendServicePortInfoMap ?c exampleNegDeps ''ns/svc''
              customNamedWithIngress m ni tr = (Return (Inr m), tr)" for m ni tr
    by (simp add: mergeDefaultBackendServicePortInfoMap_def NamespacedName_String_def
          exampleController_def)
  have mi: "mergeIngressPortInfo ?c exampleNegDeps customNamedWithIngress
              \<lparr>Namespace = ''ns'', NsName = ''svc''\<rparr> fmempty ni tr
            = (Inr fmempty, tr @ [ListIngressesCall])" for ni tr
    by (simp add: mergeIngressPortInfo_def a i ingressLister_ListCall_def
          getIngressServicesFromStore_def gatherPortMappingUsedByIngress_def)
       (simp add: exampleController_def exampleNegDeps_def)
  have "resolvePortInfoMap ?c exampleNegDeps
          ''ns/svc'' ''ns'' ''svc'' customNamedWithIngress [GetByKeyCall ''ns/svc'']
        = (Return (Inl (ErrCustomNegNameWithIngress ''ns/svc'')),
           [GetByKeyCall ''ns/svc'', ServiceNetworkCall customNamedWithIngress,
            ListIngressesCall])"
    by (simp add: resolvePortInfoMap_def nr md mi
          mergeStandaloneNEGsPortInfo_rejects [OF a i x n c] NamespacedName_String_def)
  then show ?thesis
    using e by (auto simp: processService_def serviceLister_GetByKeyCall_def
          isSingleStackIPv6Service_def IPv6Protocol_def neg_example_defs
          customNamedWithIngress_def)
qed




end
